theory Spec2Isabelle
  imports Main "HOL-Library.Word"
begin

unbundle bit_operations_syntax

section \<open>Shared data model (DisplayXFBShared.h)\<close>

text \<open>
  The structures exchanged between the driver and its clients are fixed-layout C++ structs
  of 32-bit unsigned fields. Each struct is a record, each \<open>uint32_t\<close> or \<open>unsigned\<close> a
  \<open>32 word\<close>, each fixed-size array a list. A field name that occurs in more than one
  struct carries a suffix after its first use (\<open>m_magic\<close> of the state, \<open>m_magic_cfg\<close> of the
  configuration, \<open>m_magic_cur\<close> of the cursor); member functions carry the struct's name.
\<close>

type_synonym u32 = "32 word"
type_synonym u64 = "64 word"

definition kDisplayXFBMaxClients :: nat where "kDisplayXFBMaxClients = 8"
definition kDisplayXFBMinWidth :: u32 where "kDisplayXFBMinWidth = 320"
definition kDisplayXFBMinHeight :: u32 where "kDisplayXFBMinHeight = 200"
definition kDisplayXFBDefaultWidth :: u32 where "kDisplayXFBDefaultWidth = 1280"
definition kDisplayXFBDefaultHeight :: u32 where "kDisplayXFBDefaultHeight = 800"
definition kDisplayXFBMaxWidth :: u32 where "kDisplayXFBMaxWidth = 8192"
definition kDisplayXFBMaxHeight :: u32 where "kDisplayXFBMaxHeight = 8192"
definition kDisplayXFBWidthQuantise :: u32 where "kDisplayXFBWidthQuantise = 8"
definition kDisplayXFBMinRefresh1616 :: u32 where "kDisplayXFBMinRefresh1616 = 0x00010000"
definition kDisplayXFBMaxRefresh1616 :: u32 where "kDisplayXFBMaxRefresh1616 = 0x00800000"

subsection \<open>DisplayXFBMode\<close>

record DisplayXFBMode =
  m_width :: u32
  m_height :: u32
  m_reserved0 :: u32
  m_reserved1 :: u32

definition Mode_kDefaultWidth :: u32 where "Mode_kDefaultWidth = 1280"
definition Mode_kDefaultHeight :: u32 where "Mode_kDefaultHeight = 900"

definition Mode_width :: "DisplayXFBMode \<Rightarrow> u32" where
  "Mode_width m = m_width m"

definition Mode_height :: "DisplayXFBMode \<Rightarrow> u32" where
  "Mode_height m = m_height m"

text \<open>\<open>setWidth\<close> and \<open>setHeight\<close> return the updated mode and whether the request was used
  unmolested.\<close>

definition Mode_setWidth :: "u32 \<Rightarrow> DisplayXFBMode \<Rightarrow> bool \<times> DisplayXFBMode" where
  "Mode_setWidth w m =
     (let q = w - (w mod kDisplayXFBWidthQuantise);
          v = (if q < kDisplayXFBMinWidth then kDisplayXFBMinWidth
               else if q > kDisplayXFBMaxWidth then kDisplayXFBMaxWidth
               else q)
      in (v = w, m\<lparr>m_width := v\<rparr>))"

definition Mode_setHeight :: "u32 \<Rightarrow> DisplayXFBMode \<Rightarrow> bool \<times> DisplayXFBMode" where
  "Mode_setHeight h m =
     (let v = (if h < kDisplayXFBMinHeight then kDisplayXFBMinHeight
               else if h > kDisplayXFBMaxHeight then kDisplayXFBMaxHeight
               else h)
      in (v = h, m\<lparr>m_height := v\<rparr>))"

definition Mode_initialise :: "u32 \<Rightarrow> u32 \<Rightarrow> DisplayXFBMode \<Rightarrow> bool \<times> DisplayXFBMode" where
  "Mode_initialise w h m =
     (let (wok, m1) = Mode_setWidth w m;
          (wol, m2) = Mode_setHeight h m1
      in (wok \<and> wol, m2\<lparr>m_reserved0 := 0, m_reserved1 := 0\<rparr>))"

definition Mode_initialise_default :: "DisplayXFBMode \<Rightarrow> bool \<times> DisplayXFBMode" where
  "Mode_initialise_default m = Mode_initialise Mode_kDefaultWidth Mode_kDefaultHeight m"

subsection \<open>DisplayXFBState\<close>

record DisplayXFBState =
  m_magic :: u32
  m_offset :: u32
  m_pad :: u32
  m_flags :: u32
  m_modeIndex :: u32
  m_reserved :: "u32 list"
  m_mode :: DisplayXFBMode

definition State_kMagic :: u32 where "State_kMagic = 0x78464266"
definition State_kFlagConnected :: u32 where "State_kFlagConnected = push_bit 0 1"

text \<open>\<open>initialise\<close> and \<open>invalidate\<close> assign every field of the struct except
  \<open>m_modeIndex\<close>, which the source leaves as it was.\<close>

definition State_initialise :: "DisplayXFBMode \<Rightarrow> u32 \<Rightarrow> u32 \<Rightarrow> DisplayXFBState \<Rightarrow> DisplayXFBState" where
  "State_initialise m off pd s =
     s\<lparr>m_magic := State_kMagic, m_offset := off, m_pad := pd, m_flags := 0,
       m_reserved := replicate 3 0, m_mode := m\<rparr>"

definition State_invalidate :: "DisplayXFBState \<Rightarrow> DisplayXFBState" where
  "State_invalidate s =
     s\<lparr>m_magic := NOT State_kMagic, m_offset := 0, m_pad := 0, m_flags := 0,
       m_reserved := replicate 3 0, m_mode := snd (Mode_initialise_default (m_mode s))\<rparr>"

definition State_isValid :: "DisplayXFBState \<Rightarrow> bool" where
  "State_isValid s = (State_kMagic = m_magic s)"

definition State_modeIndex :: "DisplayXFBState \<Rightarrow> u32" where
  "State_modeIndex s = m_modeIndex s"

definition State_bytesPerPixel :: "DisplayXFBState \<Rightarrow> u32" where
  "State_bytesPerPixel s = 4"

definition State_width :: "DisplayXFBState \<Rightarrow> u32" where
  "State_width s = Mode_width (m_mode s)"

definition State_height :: "DisplayXFBState \<Rightarrow> u32" where
  "State_height s = Mode_height (m_mode s)"

definition State_offset :: "DisplayXFBState \<Rightarrow> u32" where
  "State_offset s = m_offset s"

definition State_pad :: "DisplayXFBState \<Rightarrow> u32" where
  "State_pad s = m_pad s"

definition State_bytesPerRow :: "DisplayXFBState \<Rightarrow> u32" where
  "State_bytesPerRow s = State_pad s + (State_bytesPerPixel s * State_width s)"

definition State_bytesPerFrame :: "DisplayXFBState \<Rightarrow> u32" where
  "State_bytesPerFrame s = State_bytesPerRow s * State_height s"

definition State_isConnected :: "DisplayXFBState \<Rightarrow> bool" where
  "State_isConnected s = (0 \<noteq> (m_flags s AND State_kFlagConnected))"

definition State_setIsConnected :: "bool \<Rightarrow> DisplayXFBState \<Rightarrow> DisplayXFBState" where
  "State_setIsConnected con s =
     s\<lparr>m_flags := (if con then m_flags s OR State_kFlagConnected
                   else m_flags s AND NOT State_kFlagConnected)\<rparr>"

definition State_setMode :: "DisplayXFBMode \<Rightarrow> u32 \<Rightarrow> DisplayXFBState \<Rightarrow> DisplayXFBState" where
  "State_setMode m mi s = s\<lparr>m_modeIndex := mi, m_mode := m\<rparr>"

subsection \<open>DisplayXFBConfiguration\<close>

record DisplayXFBConfiguration =
  m_magic_cfg :: u32
  m_defaultModeIndex :: u32
  m_modeCount :: u32
  m_refreshRate :: u32
  m_rowPadding :: u32
  m_framePadding :: u32
  m_reserved0_cfg :: u32
  m_reserved1_cfg :: u32
  m_name :: "8 word list"
  m_modes :: "DisplayXFBMode list"

definition Configuration_kMagic :: u32 where "Configuration_kMagic = 0x78464263"
definition kMaxModes :: u32 where "kMaxModes = 32"
definition kDefaultRefresh :: u32 where "kDefaultRefresh = 0x003c0000"
definition kDefaultRowPadding :: u32 where "kDefaultRowPadding = 0"
definition kDefaultFramePadding :: u32 where "kDefaultFramePadding = 1024"

text \<open>The arrays of the struct have a fixed size: 16 name bytes and \<open>kMaxModes\<close> modes.\<close>

definition Configuration_wf :: "DisplayXFBConfiguration \<Rightarrow> bool" where
  "Configuration_wf c = (length (m_name c) = 16 \<and> length (m_modes c) = unat kMaxModes)"

definition Configuration_isValid :: "DisplayXFBConfiguration \<Rightarrow> bool" where
  "Configuration_isValid c =
     (m_magic_cfg c = Configuration_kMagic \<and>
      m_refreshRate c \<ge> kDisplayXFBMinRefresh1616 \<and>
      m_refreshRate c \<le> kDisplayXFBMaxRefresh1616 \<and>
      m_modeCount c \<le> kMaxModes \<and>
      m_defaultModeIndex c < kMaxModes \<and>
      m_name c ! (16 - 1) = 0)"

definition refreshPeriodUS :: "DisplayXFBConfiguration \<Rightarrow> u32" where
  "refreshPeriodUS c = ucast ((65536000000 :: u64) div ucast (m_refreshRate c))"

definition rowPadding :: "DisplayXFBConfiguration \<Rightarrow> u32" where
  "rowPadding c = m_rowPadding c"

definition modeCount :: "DisplayXFBConfiguration \<Rightarrow> u32" where
  "modeCount c = (if Configuration_isValid c then m_modeCount c else 0)"

definition defaultModeIndex :: "DisplayXFBConfiguration \<Rightarrow> u32" where
  "defaultModeIndex c = (if m_defaultModeIndex c < kMaxModes then m_defaultModeIndex c else 0)"

definition mode :: "DisplayXFBConfiguration \<Rightarrow> u32 \<Rightarrow> DisplayXFBMode" where
  "mode c index =
     (if index < kMaxModes then m_modes c ! unat index else m_modes c ! unat (kMaxModes - 1))"

definition defaultMode :: "DisplayXFBConfiguration \<Rightarrow> DisplayXFBMode" where
  "defaultMode c = m_modes c ! unat (defaultModeIndex c)"

text \<open>\<open>makeState\<close> writes the state passed by reference and returns whether it is valid.\<close>

definition makeState :: "DisplayXFBConfiguration \<Rightarrow> DisplayXFBState \<Rightarrow> u32 \<Rightarrow> u32 \<Rightarrow> bool \<times> DisplayXFBState" where
  "makeState c state modeIdx off =
     (let state' = (if modeIdx < modeCount c
                    then State_initialise (mode c modeIdx) off (rowPadding c) state
                    else State_invalidate state)
      in (State_isValid state', state'))"

text \<open>\<open>setName\<close> copies at most 15 bytes of a C string (here the bytes before its
  terminator) and fills the rest of the 16 bytes with zeros.\<close>

definition setName :: "8 word list \<Rightarrow> DisplayXFBConfiguration \<Rightarrow> DisplayXFBConfiguration" where
  "setName initName c =
     (let copied = take (16 - 1) (takeWhile (\<lambda>b. b \<noteq> 0) initName)
      in c\<lparr>m_name := copied @ replicate (16 - length copied) 0\<rparr>)"

definition Configuration_initialise :: "8 word list \<Rightarrow> DisplayXFBConfiguration \<Rightarrow> DisplayXFBConfiguration" where
  "Configuration_initialise n c =
     (let c1 = c\<lparr>m_magic_cfg := Configuration_kMagic, m_defaultModeIndex := 0, m_modeCount := 0,
                 m_refreshRate := kDefaultRefresh, m_rowPadding := kDefaultRowPadding,
                 m_framePadding := kDefaultFramePadding,
                 m_reserved0_cfg := 0, m_reserved1_cfg := 0\<rparr>;
          c2 = setName n c1
      in c2\<lparr>m_modes := map (\<lambda>m. snd (Mode_initialise_default m)) (m_modes c2)\<rparr>)"

definition Configuration_invalidate :: "DisplayXFBConfiguration \<Rightarrow> DisplayXFBConfiguration" where
  "Configuration_invalidate c = (Configuration_initialise [] c)\<lparr>m_magic_cfg := NOT Configuration_kMagic\<rparr>"

text \<open>The constructor is \<open>initialise\<close> on fresh storage, every field of which it
  overwrites.\<close>

definition Configuration_construct :: "8 word list \<Rightarrow> DisplayXFBConfiguration" where
  "Configuration_construct n =
     Configuration_initialise n
       \<lparr>m_magic_cfg = 0, m_defaultModeIndex = 0, m_modeCount = 0, m_refreshRate = 0,
        m_rowPadding = 0, m_framePadding = 0, m_reserved0_cfg = 0, m_reserved1_cfg = 0,
        m_name = replicate 16 0,
        m_modes = replicate (unat kMaxModes)
                    \<lparr>m_width = 0, m_height = 0, m_reserved0 = 0, m_reserved1 = 0\<rparr>\<rparr>"

definition setRowPadding :: "u32 \<Rightarrow> DisplayXFBConfiguration \<Rightarrow> DisplayXFBConfiguration" where
  "setRowPadding n c = c\<lparr>m_rowPadding := n\<rparr>"

definition appendMode :: "u32 \<Rightarrow> u32 \<Rightarrow> bool \<Rightarrow> DisplayXFBConfiguration \<Rightarrow> bool \<times> DisplayXFBConfiguration" where
  "appendMode w h setAsDefault c =
     (let index = m_modeCount c in
      if index \<ge> kMaxModes then (False, c)
      else
        (let c1 = c\<lparr>m_modeCount := m_modeCount c + 1\<rparr>;
             c2 = (if setAsDefault then c1\<lparr>m_defaultModeIndex := index\<rparr> else c1);
             (ok, m) = Mode_initialise w h (m_modes c2 ! unat index)
         in (ok, c2\<lparr>m_modes := (m_modes c2)[unat index := m]\<rparr>)))"

text \<open>A default-constructed state is \<open>invalidate()\<close> applied to fresh storage. The
  constructor never writes \<open>m_modeIndex\<close>, whose content is then indeterminate; the
  parameter \<open>junk\<close> stands for it.\<close>

definition State_construct :: "u32 \<Rightarrow> DisplayXFBState" where
  "State_construct junk =
     State_invalidate
       \<lparr>m_magic = 0, m_offset = 0, m_pad = 0, m_flags = 0, m_modeIndex = junk,
        m_reserved = replicate 3 0,
        m_mode = \<lparr>m_width = 0, m_height = 0, m_reserved0 = 0, m_reserved1 = 0\<rparr>\<rparr>"

subsection \<open>DisplayXFBCursor\<close>

text \<open>The position and the hotspot are \<open>int32_t\<close> in the source: 32-bit words here, whose
  signed value is read with \<open>sint\<close>.\<close>

record DisplayXFBCursor =
  m_magic_cur :: u32
  m_isValid :: u32
  m_isVisible :: u32
  m_x :: u32
  m_y :: u32
  m_width_cur :: u32
  m_height_cur :: u32
  m_hotspotX :: u32
  m_hotspotY :: u32
  m_sequenceState :: u32
  m_sequencePixel :: u32
  m_reserved_cur :: "u32 list"
  m_pixelData :: "u32 list"

definition Cursor_kMagic :: u32 where "Cursor_kMagic = 0x43434246"
definition Cursor_kMaxWidth :: u32 where "Cursor_kMaxWidth = 128"
definition Cursor_kMaxHeight :: u32 where "Cursor_kMaxHeight = 128"

definition Cursor_initialise :: "DisplayXFBCursor \<Rightarrow> DisplayXFBCursor" where
  "Cursor_initialise c =
     c\<lparr>m_magic_cur := Cursor_kMagic, m_isValid := 0, m_isVisible := 0, m_x := 0, m_y := 0,
       m_width_cur := 0, m_height_cur := 0, m_hotspotX := 0, m_hotspotY := 0,
       m_sequenceState := 0, m_sequencePixel := 0,
       m_reserved_cur := replicate 5 0,
       m_pixelData := replicate (unat (Cursor_kMaxWidth * Cursor_kMaxHeight)) 0\<rparr>"

section \<open>Timing emulator (DisplayXFBTiming)\<close>

text \<open>
  The emulator reads the kernel's uptime clock and converts between nanoseconds and the
  clock's own units with \<open>nanoseconds_to_absolutetime\<close> and \<open>absolutetime_to_nanoseconds\<close>.
  These belong to the kernel, not to the driver: the uptime read by each call is the
  parameter \<open>now\<close>, the two conversions are the parameters \<open>ns2abs\<close> and \<open>abs2ns\<close>. All
  quantities are 64-bit unsigned; the reported time to the next tick is cut to 32 bits.
\<close>

record DisplayXFBTiming =
  m_period :: u64
  m_nextTick :: u64

definition Timing_construct :: DisplayXFBTiming where
  "Timing_construct = \<lparr>m_period = 0, m_nextTick = 0\<rparr>"

definition Timing_start :: "(u64 \<Rightarrow> u64) \<Rightarrow> u64 \<Rightarrow> u32 \<Rightarrow> DisplayXFBTiming \<Rightarrow> DisplayXFBTiming" where
  "Timing_start ns2abs now period t =
     (let nsecs = (ucast period :: u64) * 1000;
          t1 = t\<lparr>m_period := ns2abs nsecs\<rparr>;
          t2 = t1\<lparr>m_nextTick := now\<rparr>
      in t2\<lparr>m_nextTick := m_nextTick t2 + m_period t2\<rparr>)"

text \<open>\<open>update\<close> returns the emulator, the elapsed ticks and the microseconds to the next
  tick. The division by the period is guarded by the source's own test for zero.\<close>

definition Timing_update :: "(u64 \<Rightarrow> u64) \<Rightarrow> u64 \<Rightarrow> DisplayXFBTiming \<Rightarrow> DisplayXFBTiming \<times> u64 \<times> u32" where
  "Timing_update abs2ns now t =
     (let (t', ticks) =
            (if now \<ge> m_nextTick t then
               (if m_period t \<noteq> 0 then
                  (let ticks = ((now - m_nextTick t) div m_period t) + 1
                   in (t\<lparr>m_nextTick := m_nextTick t + (m_period t * ticks)\<rparr>, ticks))
                else (t\<lparr>m_nextTick := now\<rparr>, 0))
             else
               (if (m_nextTick t - now) > m_period t then (t\<lparr>m_nextTick := now + 1\<rparr>, 0)
                else (t, 0)));
          nsecs = abs2ns (m_nextTick t' - now)
      in (t', ticks, (ucast (nsecs div 1000) :: u32)))"

section \<open>Display state machine (DisplayXFBFramebuffer)\<close>

datatype IOReturn =
    kIOReturnSuccess
  | kIOReturnError
  | kIOReturnNoMemory
  | kIOReturnBadArgument
  | kIOReturnBusy
  | kIOReturnUnsupported
  | kIOReturnNotPermitted
  | kIOReturnUnsupportedMode
  | kIOReturnOffline

datatype notification =
    kDisplayXFBNotificationDisplayState
  | kDisplayXFBNotificationCursorState
  | kDisplayXFBNotificationCursorImage

text \<open>
  What the framebuffer does to its collaborators is recorded, in order, in the field
  \<open>effects\<close>: a notification handed to the provider, an interrupt callback invoked (with
  the callback and its two arguments), the vblank timer armed or cancelled, a line logged.
\<close>

datatype effect =
    SendNotification notification
  | InterruptCall nat nat nat
  | SetTimeoutUS u32
  | CancelTimeout
  | IOLog

text \<open>Pointers are natural numbers, 0 the null pointer.\<close>

record InterruptHandler =
  m_handler :: nat
  m_object :: nat
  m_ref :: nat
  m_enabled :: bool

definition InterruptHandler_isAssigned :: "InterruptHandler \<Rightarrow> bool" where
  "InterruptHandler_isAssigned h = (0 \<noteq> m_handler h)"

definition InterruptHandler_isEnabled :: "InterruptHandler \<Rightarrow> bool" where
  "InterruptHandler_isEnabled h = m_enabled h"

definition InterruptHandler_fire :: "InterruptHandler \<Rightarrow> effect list" where
  "InterruptHandler_fire h =
     (if InterruptHandler_isAssigned h \<and> InterruptHandler_isEnabled h
      then [InterruptCall (m_handler h) (m_object h) (m_ref h)] else [])"

record DisplayXFBFramebuffer =
  m_vramSize :: u32
  m_vblankWorkLoop :: nat
  m_vblankTimerEventSource :: nat
  m_vblankPeriodUS :: u32
  m_vblankTiming :: DisplayXFBTiming
  m_vblankTimerIsEnabled :: bool
  m_cursor :: DisplayXFBCursor
  m_connectInterruptHandler :: InterruptHandler
  m_vblankInterruptHandler :: InterruptHandler
  m_configuration :: DisplayXFBConfiguration
  m_state :: DisplayXFBState
  effects :: "effect list"

definition kFramePadding :: u32 where "kFramePadding = 1024"

definition sendNotification :: "notification \<Rightarrow> DisplayXFBFramebuffer \<Rightarrow> DisplayXFBFramebuffer" where
  "sendNotification code fb = fb\<lparr>effects := effects fb @ [SendNotification code]\<rparr>"

definition fire_connectInterrupt :: "DisplayXFBFramebuffer \<Rightarrow> DisplayXFBFramebuffer" where
  "fire_connectInterrupt fb =
     fb\<lparr>effects := effects fb @ InterruptHandler_fire (m_connectInterruptHandler fb)\<rparr>"

text \<open>\<open>vblankEventEnable\<close> is called by the source only where the configuration is valid,
  so the refresh rate that divides in \<open>refreshPeriodUS\<close> is not zero.\<close>

definition vblankEventEnable :: "(u64 \<Rightarrow> u64) \<Rightarrow> u64 \<Rightarrow> bool \<Rightarrow> DisplayXFBFramebuffer \<Rightarrow> DisplayXFBFramebuffer" where
  "vblankEventEnable ns2abs now enable fb =
     (if m_vblankWorkLoop fb \<noteq> 0 \<and> m_vblankTimerEventSource fb \<noteq> 0 \<and>
         enable \<noteq> m_vblankTimerIsEnabled fb
      then
        (let fb1 = fb\<lparr>m_vblankTimerIsEnabled := enable\<rparr>
         in if enable then
              (let p0 = refreshPeriodUS (m_configuration fb1);
                   p1 = (if p0 < 1000 then 1000 else p0);
                   p2 = (if p1 > 1000000 then 1000000 else p1)
               in fb1\<lparr>m_vblankPeriodUS := p2,
                       m_vblankTiming := Timing_start ns2abs now p2 (m_vblankTiming fb1),
                       effects := effects fb1 @ [SetTimeoutUS p2]\<rparr>)
            else fb1\<lparr>effects := effects fb1 @ [CancelTimeout]\<rparr>)
      else fb)"

text \<open>The loop of \<open>userClientSetConfiguration\<close> over the modes of the candidate
  configuration: \<open>Some\<close> status where the loop returns early, \<open>None\<close> where it runs to
  its end. The scratch state of each round is default-constructed.\<close>

function checkModes :: "DisplayXFBConfiguration \<Rightarrow> u32 \<Rightarrow> u32 \<Rightarrow> IOReturn option" where
  "checkModes config vram i =
     (if i < modeCount config then
        (let m = mode config i in
         if Mode_width m < kDisplayXFBMinWidth \<or> Mode_height m < kDisplayXFBMinHeight
         then Some kIOReturnBadArgument
         else
           (let (ok, state) = makeState config (State_construct 0) i 0 in
            if \<not> ok then Some kIOReturnBadArgument
            else if (State_bytesPerFrame state + kFramePadding) > vram then Some kIOReturnNoMemory
            else checkModes config vram (i + 1)))
      else None)"
  by pat_completeness auto
termination
proof (relation "measure (\<lambda>(config, vram, i). unat (modeCount config) - unat i)")
  show "wf (measure (\<lambda>(config, vram, i). unat (modeCount config) - unat i))"
    by simp
next
  fix config :: DisplayXFBConfiguration and vram i :: u32 and x xa y
  assume lt: "i < modeCount config"
  have "unat i < unat (modeCount config)"
    using lt by (simp add: word_less_nat_alt)
  moreover have "unat (modeCount config) < 2 ^ LENGTH(32)"
    by (rule unsigned_less)
  ultimately have "unat i + unat (1 :: u32) < 2 ^ LENGTH(32)"
    by simp
  then have "unat (i + 1) = unat i + unat (1 :: u32)"
    by (simp only: unat_add_lem)
  with \<open>unat i < unat (modeCount config)\<close> show "((config, vram, i + 1), (config, vram, i))
        \<in> measure (\<lambda>(config, vram, i). unat (modeCount config) - unat i)"
    by simp
qed

definition InterruptHandler_init :: InterruptHandler where
  "InterruptHandler_init = \<lparr>m_handler = 0, m_object = 0, m_ref = 0, m_enabled = False\<rparr>"

definition InterruptHandler_assign :: "nat \<Rightarrow> nat \<Rightarrow> nat \<Rightarrow> InterruptHandler \<Rightarrow> InterruptHandler" where
  "InterruptHandler_assign proc object ref h =
     h\<lparr>m_handler := proc, m_object := object, m_ref := ref, m_enabled := True\<rparr>"

text \<open>
  The framebuffer as \<open>start()\<close> and \<open>enableController()\<close> leave it: both interrupt
  handlers cleared, the built-in configuration \<open>Default\<close> with the single mode
  1280 x 800 as its default, the state made from it, the cursor initialised. The VRAM size
  comes from the provider; the work loop and the timer event source are allocated by the
  kernel (0 where the allocation failed).
\<close>

definition Framebuffer_start :: "u32 \<Rightarrow> nat \<Rightarrow> nat \<Rightarrow> DisplayXFBFramebuffer" where
  "Framebuffer_start vramSize workLoop timerEventSource =
     (let c0 = Configuration_invalidate (Configuration_construct []);
          s0 = State_invalidate (State_construct 0);
          c1 = Configuration_initialise [0x44, 0x65, 0x66, 0x61, 0x75, 0x6c, 0x74] c0;
          c2 = snd (appendMode kDisplayXFBDefaultWidth kDisplayXFBDefaultHeight True c1);
          s1 = snd (makeState c2 s0 (defaultModeIndex c2) 0)
      in \<lparr>m_vramSize = vramSize,
          m_vblankWorkLoop = workLoop,
          m_vblankTimerEventSource = timerEventSource,
          m_vblankPeriodUS = 0,
          m_vblankTiming = Timing_construct,
          m_vblankTimerIsEnabled = False,
          m_cursor = Cursor_initialise
            \<lparr>m_magic_cur = 0, m_isValid = 0, m_isVisible = 0, m_x = 0, m_y = 0,
             m_width_cur = 0, m_height_cur = 0, m_hotspotX = 0, m_hotspotY = 0,
             m_sequenceState = 0, m_sequencePixel = 0, m_reserved_cur = [], m_pixelData = []\<rparr>,
          m_connectInterruptHandler = InterruptHandler_init,
          m_vblankInterruptHandler = InterruptHandler_init,
          m_configuration = c2,
          m_state = s1,
          effects = []\<rparr>)"

definition userClientGetConfiguration :: "DisplayXFBFramebuffer \<Rightarrow> IOReturn \<times> DisplayXFBConfiguration" where
  "userClientGetConfiguration fb = (kIOReturnSuccess, m_configuration fb)"

text \<open>The configuration arrives through a pointer: \<open>None\<close> is the null pointer.\<close>

definition userClientSetConfiguration :: "DisplayXFBConfiguration option \<Rightarrow> DisplayXFBFramebuffer \<Rightarrow> IOReturn \<times> DisplayXFBFramebuffer" where
  "userClientSetConfiguration cfg fb =
     (case cfg of
        None \<Rightarrow> (kIOReturnBadArgument, fb)
      | Some config \<Rightarrow>
          if \<not> Configuration_isValid config then (kIOReturnBadArgument, fb)
          else if 0 = modeCount config then (kIOReturnBadArgument, fb)
          else if State_isConnected (m_state fb) then (kIOReturnBusy, fb)
          else
            (case checkModes config (m_vramSize fb) 0 of
               Some status \<Rightarrow> (status, fb)
             | None \<Rightarrow>
                 (let fb1 = fb\<lparr>m_configuration := config\<rparr>;
                      fb2 = fb1\<lparr>m_state := State_setMode (defaultMode (m_configuration fb1))
                                              (defaultModeIndex (m_configuration fb1)) (m_state fb1)\<rparr>
                  in (kIOReturnSuccess, fb2))))"

definition userClientGetState :: "DisplayXFBFramebuffer \<Rightarrow> IOReturn \<times> DisplayXFBState" where
  "userClientGetState fb =
     ((if State_isValid (m_state fb) then kIOReturnSuccess else kIOReturnOffline), m_state fb)"

definition userClientConnect :: "(u64 \<Rightarrow> u64) \<Rightarrow> u64 \<Rightarrow> DisplayXFBFramebuffer \<Rightarrow> IOReturn \<times> DisplayXFBFramebuffer" where
  "userClientConnect ns2abs now fb =
     (if State_isConnected (m_state fb) then (kIOReturnNotPermitted, fb)
      else if \<not> Configuration_isValid (m_configuration fb) \<or> 0 = modeCount (m_configuration fb)
      then (kIOReturnUnsupportedMode, fb)
      else
        (let fb1 = fb\<lparr>m_state := snd (makeState (m_configuration fb) (m_state fb)
                                        (defaultModeIndex (m_configuration fb)) 0)\<rparr>;
             fb2 = fb1\<lparr>m_state := State_setIsConnected True (m_state fb1)\<rparr>;
             fb3 = vblankEventEnable ns2abs now True fb2;
             fb4 = fire_connectInterrupt fb3;
             fb5 = sendNotification kDisplayXFBNotificationDisplayState fb4
         in (kIOReturnSuccess, fb5)))"

definition userClientDisconnect :: "(u64 \<Rightarrow> u64) \<Rightarrow> u64 \<Rightarrow> DisplayXFBFramebuffer \<Rightarrow> IOReturn \<times> DisplayXFBFramebuffer" where
  "userClientDisconnect ns2abs now fb =
     (if State_isConnected (m_state fb) then
        (let fb1 = fb\<lparr>m_state := State_setIsConnected False (m_state fb)\<rparr>;
             fb2 = vblankEventEnable ns2abs now False fb1;
             fb3 = sendNotification kDisplayXFBNotificationDisplayState fb2;
             fb4 = fire_connectInterrupt fb3
         in (kIOReturnSuccess, fb4))
      else (kIOReturnSuccess, fb))"

text \<open>\<open>setDisplayMode\<close>: the host's mode identifier is the mode index plus one, the depth
  index must be zero.\<close>

definition setDisplayMode :: "u32 \<Rightarrow> u32 \<Rightarrow> DisplayXFBFramebuffer \<Rightarrow> IOReturn \<times> DisplayXFBFramebuffer" where
  "setDisplayMode displayMode depth fb =
     (let modeIdx = displayMode - 1 in
      if 0 = depth \<and> modeIdx < modeCount (m_configuration fb) then
        (let fb1 = fb\<lparr>m_state := State_setMode (mode (m_configuration fb) modeIdx) modeIdx (m_state fb)\<rparr>
         in (kIOReturnSuccess, sendNotification kDisplayXFBNotificationDisplayState fb1))
      else (kIOReturnUnsupported, fb))"

subsection \<open>Cursor\<close>

text \<open>
  \<open>setCursorImage\<close> hands the image to \<open>convertCursorImage\<close> of the framebuffer base
  class, which is not part of the driver: its verdict \<open>ok\<close> and the descriptor it fills
  in are parameters. The descriptor's data pointer is the cursor's own pixel array, so
  what the conversion wrote is the array's new content. The flag \<open>didWarn\<close> is a static
  variable local to the function and so shared by all framebuffers: it is passed in and
  returned beside the framebuffer, not kept in it.
\<close>

record IOHardwareCursorInfo =
  cursorHeight :: u32
  cursorWidth :: u32
  hardwareCursorData :: "u32 list"
  cursorHotSpotX :: u32
  cursorHotSpotY :: u32

definition setCursorImage :: "bool \<Rightarrow> IOHardwareCursorInfo \<Rightarrow> bool \<Rightarrow> DisplayXFBFramebuffer \<Rightarrow> IOReturn \<times> bool \<times> DisplayXFBFramebuffer" where
  "setCursorImage ok info didWarn fb =
     (let fb0 = fb\<lparr>m_cursor := (m_cursor fb)\<lparr>m_pixelData := hardwareCursorData info\<rparr>\<rparr> in
      if \<not> ok then
        (let fb1 = fb0\<lparr>m_cursor := (m_cursor fb0)\<lparr>m_isValid := 0\<rparr>\<rparr>
         in if \<not> didWarn
            then (kIOReturnUnsupported, True, fb1\<lparr>effects := effects fb1 @ [IOLog]\<rparr>)
            else (kIOReturnUnsupported, didWarn, fb1))
      else
        (let fb1 = fb0\<lparr>m_cursor := (m_cursor fb0)
                          \<lparr>m_hotspotX := cursorHotSpotX info,
                           m_hotspotY := cursorHotSpotY info,
                           m_width_cur := cursorWidth info,
                           m_height_cur := cursorHeight info,
                           m_isValid := 1\<rparr>\<rparr>
         in (kIOReturnSuccess, didWarn, sendNotification kDisplayXFBNotificationCursorImage fb1)))"

definition setCursorState :: "u32 \<Rightarrow> u32 \<Rightarrow> bool \<Rightarrow> DisplayXFBFramebuffer \<Rightarrow> IOReturn \<times> DisplayXFBFramebuffer" where
  "setCursorState x y visible fb =
     (let fb1 = fb\<lparr>m_cursor := (m_cursor fb)
                       \<lparr>m_x := x, m_y := y, m_isVisible := (if visible then 1 else 0)\<rparr>\<rparr>
      in (kIOReturnSuccess, sendNotification kDisplayXFBNotificationCursorState fb1))"

section \<open>Session pool (DisplayXFBDriver)\<close>

text \<open>The driver keeps the attached user clients in an array of \<open>kDisplayXFBMaxClients\<close>
  pointers; a null entry is a free slot.\<close>

record DisplayXFBDriver =
  m_clients :: "nat list"

definition Driver_wf :: "DisplayXFBDriver \<Rightarrow> bool" where
  "Driver_wf d = (length (m_clients d) = kDisplayXFBMaxClients)"

function handleIsOpen_from :: "nat \<Rightarrow> nat \<Rightarrow> DisplayXFBDriver \<Rightarrow> bool" where
  "handleIsOpen_from i forClient d =
     (if i < kDisplayXFBMaxClients then
        (if forClient = m_clients d ! i then True else handleIsOpen_from (i + 1) forClient d)
      else False)"
  by pat_completeness auto
termination
  by (relation "measure (\<lambda>(i, forClient, d). kDisplayXFBMaxClients - i)") auto

definition handleIsOpen :: "nat \<Rightarrow> DisplayXFBDriver \<Rightarrow> bool" where
  "handleIsOpen forClient d = handleIsOpen_from 0 forClient d"

function handleOpen_from :: "nat \<Rightarrow> nat \<Rightarrow> DisplayXFBDriver \<Rightarrow> bool \<times> DisplayXFBDriver" where
  "handleOpen_from i forClient d =
     (if i < kDisplayXFBMaxClients then
        (if 0 = m_clients d ! i then (True, d\<lparr>m_clients := (m_clients d)[i := forClient]\<rparr>)
         else handleOpen_from (i + 1) forClient d)
      else (False, d))"
  by pat_completeness auto
termination
  by (relation "measure (\<lambda>(i, forClient, d). kDisplayXFBMaxClients - i)") auto

definition handleOpen :: "nat \<Rightarrow> DisplayXFBDriver \<Rightarrow> bool \<times> DisplayXFBDriver" where
  "handleOpen forClient d =
     (if 0 = forClient then (False, d)
      else if handleIsOpen forClient d then (False, d)
      else handleOpen_from 0 forClient d)"

function handleClose_from :: "nat \<Rightarrow> nat \<Rightarrow> DisplayXFBDriver \<Rightarrow> DisplayXFBDriver" where
  "handleClose_from i forClient d =
     (if i < kDisplayXFBMaxClients then
        handleClose_from (i + 1) forClient
          (if forClient = m_clients d ! i then d\<lparr>m_clients := (m_clients d)[i := 0]\<rparr> else d)
      else d)"
  by pat_completeness auto
termination
  by (relation "measure (\<lambda>(i, forClient, d). kDisplayXFBMaxClients - i)") auto

definition handleClose :: "nat \<Rightarrow> DisplayXFBDriver \<Rightarrow> DisplayXFBDriver" where
  "handleClose forClient d = handleClose_from 0 forClient d"

section \<open>Configurations a client can send\<close>

text \<open>
  A configuration reaches the driver as the bytes of the struct, whose fields are public.
  \<open>config_default_past_count\<close>: a client appends the modes 640 x 480 and 1920 x 1080, the
  second as the default, and then sets the mode count to 1, so that the default mode index
  (1) is not below the mode count. \<open>config_wrapping_padding\<close>: a client appends the single
  mode 320 x 200 and sets a row padding of 536869628 bytes with \<open>setRowPadding\<close>, which
  makes the 32-bit product of bytes per row and height wrap around.
  \<open>config_wrapping_row\<close>: a client appends the single mode 8192 x 200 and sets a row
  padding of 4294967280 bytes, which makes the 32-bit sum for the bytes per row wrap around.
\<close>

definition config_default_past_count :: DisplayXFBConfiguration where
  "config_default_past_count =
     (snd (appendMode 1920 1080 True
        (snd (appendMode 640 480 False (Configuration_construct [])))))\<lparr>m_modeCount := 1\<rparr>"

definition config_wrapping_row :: DisplayXFBConfiguration where
  "config_wrapping_row =
     setRowPadding 4294967280 (snd (appendMode 8192 200 True (Configuration_construct [])))"

definition config_wrapping_padding :: DisplayXFBConfiguration where
  "config_wrapping_padding =
     setRowPadding 536869628 (snd (appendMode 320 200 True (Configuration_construct [])))"

text \<open>The equations of the loops are unfolded by hand, one round at a time.\<close>

declare checkModes.simps [simp del]
declare handleIsOpen_from.simps [simp del]
declare handleOpen_from.simps [simp del]
declare handleClose_from.simps [simp del]

section \<open>Evaluation lemmas\<close>

lemmas mode_defs = Mode_width_def Mode_height_def Mode_setWidth_def Mode_setHeight_def
  Mode_initialise_def Mode_initialise_default_def Mode_kDefaultWidth_def Mode_kDefaultHeight_def
  kDisplayXFBMinWidth_def kDisplayXFBMinHeight_def kDisplayXFBMaxWidth_def kDisplayXFBMaxHeight_def
  kDisplayXFBWidthQuantise_def kDisplayXFBDefaultWidth_def kDisplayXFBDefaultHeight_def

lemmas state_defs = State_initialise_def State_invalidate_def State_isValid_def State_kMagic_def
  State_kFlagConnected_def State_width_def State_height_def State_pad_def State_offset_def
  State_bytesPerPixel_def State_bytesPerRow_def State_bytesPerFrame_def State_isConnected_def
  State_setIsConnected_def State_setMode_def State_construct_def State_modeIndex_def

lemmas cfg_defs = Configuration_isValid_def Configuration_kMagic_def kMaxModes_def
  kDefaultRefresh_def kDefaultRowPadding_def kDefaultFramePadding_def
  kDisplayXFBMinRefresh1616_def kDisplayXFBMaxRefresh1616_def rowPadding_def modeCount_def
  defaultModeIndex_def mode_def defaultMode_def setName_def Configuration_initialise_def
  Configuration_invalidate_def Configuration_construct_def setRowPadding_def appendMode_def

lemma setIsConnected_True: "State_isConnected (State_setIsConnected True s)"
  by (simp add: State_isConnected_def State_setIsConnected_def State_kFlagConnected_def)

lemma setIsConnected_False: "\<not> State_isConnected (State_setIsConnected False s)"
  by (simp add: State_isConnected_def State_setIsConnected_def State_kFlagConnected_def and.assoc)

lemma start_configuration:
  "m_configuration (Framebuffer_start v w t) =
     \<lparr>m_magic_cfg = 0x78464263, m_defaultModeIndex = 0, m_modeCount = 1,
      m_refreshRate = 0x003c0000, m_rowPadding = 0, m_framePadding = 1024,
      m_reserved0_cfg = 0, m_reserved1_cfg = 0,
      m_name = [0x44, 0x65, 0x66, 0x61, 0x75, 0x6c, 0x74] @ replicate 9 0,
      m_modes = (replicate 32 \<lparr>m_width = 1280, m_height = 900, m_reserved0 = 0, m_reserved1 = 0\<rparr>)
                   [0 := \<lparr>m_width = 1280, m_height = 800, m_reserved0 = 0, m_reserved1 = 0\<rparr>]\<rparr>"
  by (simp add: Framebuffer_start_def Let_def cfg_defs mode_defs)

lemma start_state:
  "m_state (Framebuffer_start v w t) =
     \<lparr>m_magic = 0x78464266, m_offset = 0, m_pad = 0, m_flags = 0, m_modeIndex = 0,
      m_reserved = replicate 3 0,
      m_mode = \<lparr>m_width = 1280, m_height = 800, m_reserved0 = 0, m_reserved1 = 0\<rparr>\<rparr>"
  by (simp add: Framebuffer_start_def Let_def cfg_defs mode_defs makeState_def state_defs)

lemma start_not_connected: "\<not> State_isConnected (m_state (Framebuffer_start v w t))"
  by (simp add: start_state State_isConnected_def)

lemma start_config_valid: "Configuration_isValid (m_configuration (Framebuffer_start v w t))"
  by (simp add: start_configuration cfg_defs nth_append)

lemma start_modeCount: "modeCount (m_configuration (Framebuffer_start v w t)) = 1"
  by (simp add: modeCount_def start_config_valid) (simp add: start_configuration)

lemma connect_start_connected:
  "State_isConnected (m_state (snd (userClientConnect ns2abs now (Framebuffer_start v w t))))"
  by (simp add: userClientConnect_def start_not_connected start_config_valid start_modeCount Let_def
      sendNotification_def fire_connectInterrupt_def vblankEventEnable_def setIsConnected_True)

lemma makeState_in_range:
  "modeIdx < modeCount c \<Longrightarrow>
   makeState c state modeIdx off = (True, State_initialise (mode c modeIdx) off (rowPadding c) state)"
  by (simp add: makeState_def State_isValid_def State_initialise_def)

lemma makeState_keeps_modeIndex:
  "m_modeIndex (snd (makeState c state modeIdx off)) = m_modeIndex state"
  by (simp add: makeState_def Let_def State_initialise_def State_invalidate_def)

section \<open>The display state machine\<close>

text \<open>
  Claim C1, as the code has it. While the display is connected, \<open>setConfiguration\<close>
  never succeeds and leaves the whole framebuffer object, so in particular the stored
  configuration and the stored state, exactly as it was, for every input. The outcome is
  \<open>Busy\<close> when the input is a configuration that passes its self-validation and has at
  least one mode; for a null pointer, an invalid configuration or one with no mode the
  argument checks come first and the outcome is \<open>BadArgument\<close>.
\<close>

theorem setConfiguration_when_connected:
  "State_isConnected (m_state fb) \<Longrightarrow>
     snd (userClientSetConfiguration cfg fb) = fb \<and>
     fst (userClientSetConfiguration cfg fb) =
       (if (case cfg of None \<Rightarrow> False
            | Some config \<Rightarrow> Configuration_isValid config \<and> modeCount config \<noteq> 0)
        then kIOReturnBusy else kIOReturnBadArgument)"
  by (auto simp: userClientSetConfiguration_def split: option.splits)

theorem setConfiguration_when_connected_counterexample:
  "State_isConnected (m_state (snd (userClientConnect id 0 (Framebuffer_start 0x2000000 2 3)))) \<and>
   fst (userClientSetConfiguration (Some (Configuration_construct []))
          (snd (userClientConnect id 0 (Framebuffer_start 0x2000000 2 3)))) = kIOReturnBadArgument \<and>
   fst (userClientSetConfiguration (Some (Configuration_construct []))
          (snd (userClientConnect id 0 (Framebuffer_start 0x2000000 2 3)))) \<noteq> kIOReturnBusy"
  by (simp add: connect_start_connected userClientSetConfiguration_def modeCount_def
      Configuration_construct_def Configuration_initialise_def Let_def setName_def)

theorem setConfiguration_when_connected_witness:
  "State_isConnected (m_state (snd (userClientConnect id 0 (Framebuffer_start 0x2000000 2 3)))) \<and>
   userClientSetConfiguration (Some (m_configuration (Framebuffer_start 0x2000000 2 3)))
          (snd (userClientConnect id 0 (Framebuffer_start 0x2000000 2 3)))
     = (kIOReturnBusy, snd (userClientConnect id 0 (Framebuffer_start 0x2000000 2 3)))"
  using setConfiguration_when_connected
      [where fb = "snd (userClientConnect id 0 (Framebuffer_start 0x2000000 2 3))"
         and cfg = "Some (m_configuration (Framebuffer_start 0x2000000 2 3))"]
  by (simp add: connect_start_connected start_config_valid start_modeCount prod_eq_iff)

text \<open>
  Claim C3. \<open>disconnect()\<close> on a display whose connected flag is clear returns success
  and returns the framebuffer object unchanged: configuration, state, timing emulator and
  timer flag are as before, and the record of effects has gained no notification, no
  connect interrupt and no timer call.
\<close>

theorem disconnect_when_disconnected:
  "\<not> State_isConnected (m_state fb) \<Longrightarrow>
     userClientDisconnect ns2abs now fb = (kIOReturnSuccess, fb)"
  by (simp add: userClientDisconnect_def)

theorem disconnect_when_disconnected_witness:
  "\<not> State_isConnected (m_state (Framebuffer_start 0x2000000 2 3)) \<and>
   userClientDisconnect id 0 (Framebuffer_start 0x2000000 2 3) =
     (kIOReturnSuccess, Framebuffer_start 0x2000000 2 3)"
  using disconnect_when_disconnected [where fb = "Framebuffer_start 0x2000000 2 3" and ?ns2abs = id and now = 0]
  by (simp add: start_not_connected)

text \<open>
  Claim C6, evaluated on the code. Neither \<open>setCursorState\<close> nor a successful
  \<open>setCursorImage\<close> writes either sequence counter of the cursor structure: after a
  successful call both \<open>m_sequenceState\<close> and \<open>m_sequencePixel\<close> hold the value they had
  before, so the counters stay at the zero that \<open>initialise\<close> gave them.
\<close>

theorem cursor_updates_keep_sequence_counters:
  "fst (setCursorState x y visible fb) = kIOReturnSuccess \<and>
   m_sequenceState (m_cursor (snd (setCursorState x y visible fb))) = m_sequenceState (m_cursor fb) \<and>
   m_sequencePixel (m_cursor (snd (setCursorState x y visible fb))) = m_sequencePixel (m_cursor fb) \<and>
   fst (setCursorImage True info didWarn fb) = kIOReturnSuccess \<and>
   m_sequencePixel (m_cursor (snd (snd (setCursorImage True info didWarn fb)))) = m_sequencePixel (m_cursor fb) \<and>
   m_sequenceState (m_cursor (snd (snd (setCursorImage True info didWarn fb)))) = m_sequenceState (m_cursor fb)"
  by (simp add: setCursorState_def setCursorImage_def sendNotification_def Let_def)

section \<open>States made from a configuration\<close>

text \<open>
  Claim C8, as the code has it. For every configuration and every index below its mode
  count, \<open>makeState\<close> succeeds; the state's mode is the entry of the configuration's mode
  array at that index, so its width and height are that entry's; its padding is the
  configuration's stored row padding; and its bytes per row are that row padding plus 4
  times the entry's width in the source's 32-bit unsigned arithmetic, that is, the sum
  modulo \<open>2 ^ 32\<close>. The bytes per row equal the sum itself whenever the sum is below
  \<open>2 ^ 32\<close>, and not otherwise.
\<close>

theorem makeState_roundtrip:
  "idx < modeCount cfg \<Longrightarrow>
     fst (makeState cfg state idx off) \<and>
     mode cfg idx = m_modes cfg ! unat idx \<and>
     rowPadding cfg = m_rowPadding cfg \<and>
     m_mode (snd (makeState cfg state idx off)) = m_modes cfg ! unat idx \<and>
     m_pad (snd (makeState cfg state idx off)) = m_rowPadding cfg \<and>
     m_offset (snd (makeState cfg state idx off)) = off \<and>
     State_width (snd (makeState cfg state idx off)) = m_width (m_modes cfg ! unat idx) \<and>
     State_height (snd (makeState cfg state idx off)) = m_height (m_modes cfg ! unat idx) \<and>
     State_pad (snd (makeState cfg state idx off)) = m_rowPadding cfg \<and>
     State_bytesPerRow (snd (makeState cfg state idx off)) =
       m_rowPadding cfg + 4 * m_width (m_modes cfg ! unat idx) \<and>
     unat (State_bytesPerRow (snd (makeState cfg state idx off))) =
       (unat (m_rowPadding cfg) + 4 * unat (m_width (m_modes cfg ! unat idx))) mod 2 ^ 32 \<and>
     (unat (m_rowPadding cfg) + 4 * unat (m_width (m_modes cfg ! unat idx)) < 2 ^ 32 \<longrightarrow>
        unat (State_bytesPerRow (snd (makeState cfg state idx off))) =
          unat (m_rowPadding cfg) + 4 * unat (m_width (m_modes cfg ! unat idx)))"
proof -
  assume lt: "idx < modeCount cfg"
  then have "idx < kMaxModes"
    by (auto simp: modeCount_def Configuration_isValid_def split: if_splits)
  then have m: "mode cfg idx = m_modes cfg ! unat idx" by (simp add: mode_def)
  have ms: "makeState cfg state idx off =
      (True, State_initialise (m_modes cfg ! unat idx) off (m_rowPadding cfg) state)"
    using makeState_in_range [OF lt, of state off] by (simp add: m rowPadding_def)
  let ?s = "snd (makeState cfg state idx off)"
  have s: "?s = State_initialise (m_modes cfg ! unat idx) off (m_rowPadding cfg) state"
    by (simp add: ms)
  have row: "State_bytesPerRow ?s = m_rowPadding cfg + 4 * m_width (m_modes cfg ! unat idx)"
    by (simp add: s State_initialise_def State_width_def State_bytesPerRow_def State_pad_def
        State_bytesPerPixel_def Mode_width_def)
  have "unat (m_rowPadding cfg + 4 * m_width (m_modes cfg ! unat idx)) =
       (unat (m_rowPadding cfg) + 4 * unat (m_width (m_modes cfg ! unat idx))) mod 2 ^ 32"
    by (simp add: unat_word_ariths mod_simps)
  then have md: "unat (State_bytesPerRow ?s) =
       (unat (m_rowPadding cfg) + 4 * unat (m_width (m_modes cfg ! unat idx))) mod 2 ^ 32"
    by (simp only: row)
  show ?thesis
  proof (intro conjI impI)
    show "fst (makeState cfg state idx off)" by (simp add: ms)
    show "mode cfg idx = m_modes cfg ! unat idx" by (rule m)
    show "rowPadding cfg = m_rowPadding cfg" by (simp add: rowPadding_def)
    show "m_mode ?s = m_modes cfg ! unat idx" by (simp add: s State_initialise_def)
    show "m_pad ?s = m_rowPadding cfg" by (simp add: s State_initialise_def)
    show "m_offset ?s = off" by (simp add: s State_initialise_def)
    show "State_width ?s = m_width (m_modes cfg ! unat idx)"
      by (simp add: s State_initialise_def State_width_def Mode_width_def)
    show "State_height ?s = m_height (m_modes cfg ! unat idx)"
      by (simp add: s State_initialise_def State_height_def Mode_height_def)
    show "State_pad ?s = m_rowPadding cfg" by (simp add: s State_initialise_def State_pad_def)
    show "State_bytesPerRow ?s = m_rowPadding cfg + 4 * m_width (m_modes cfg ! unat idx)"
      by (rule row)
    show "unat (State_bytesPerRow ?s) =
       (unat (m_rowPadding cfg) + 4 * unat (m_width (m_modes cfg ! unat idx))) mod 2 ^ 32"
      by (rule md)
    assume "unat (m_rowPadding cfg) + 4 * unat (m_width (m_modes cfg ! unat idx)) < 2 ^ 32"
    then show "unat (State_bytesPerRow ?s) =
        unat (m_rowPadding cfg) + 4 * unat (m_width (m_modes cfg ! unat idx))"
      by (simp only: md mod_less)
  qed
qed

theorem makeState_roundtrip_counterexample:
  "(0 :: u32) < modeCount config_wrapping_row \<and>
   fst (makeState config_wrapping_row (State_construct 0) 0 0) \<and>
   m_rowPadding config_wrapping_row = 4294967280 \<and>
   m_width (m_modes config_wrapping_row ! 0) = 8192 \<and>
   State_width (snd (makeState config_wrapping_row (State_construct 0) 0 0)) = 8192 \<and>
   State_bytesPerRow (snd (makeState config_wrapping_row (State_construct 0) 0 0)) = 32752 \<and>
   unat (State_bytesPerRow (snd (makeState config_wrapping_row (State_construct 0) 0 0))) \<noteq>
     unat (m_rowPadding config_wrapping_row) + 4 * unat (m_width (m_modes config_wrapping_row ! 0))"
proof -
  have e: "config_wrapping_row =
     \<lparr>m_magic_cfg = 0x78464263, m_defaultModeIndex = 0, m_modeCount = 1,
      m_refreshRate = 0x003c0000, m_rowPadding = 4294967280, m_framePadding = 1024,
      m_reserved0_cfg = 0, m_reserved1_cfg = 0,
      m_name = replicate 16 0,
      m_modes = (replicate 32 \<lparr>m_width = 1280, m_height = 900, m_reserved0 = 0, m_reserved1 = 0\<rparr>)
                   [0 := \<lparr>m_width = 8192, m_height = 200, m_reserved0 = 0, m_reserved1 = 0\<rparr>]\<rparr>"
    by (simp add: config_wrapping_row_def Let_def cfg_defs mode_defs)
  have c: "modeCount config_wrapping_row = 1" by (simp add: e cfg_defs)
  have lt: "(0 :: u32) < modeCount config_wrapping_row" by (simp add: c)
  have ms: "makeState config_wrapping_row (State_construct 0) 0 0 =
      (True, State_initialise (mode config_wrapping_row 0) 0 (rowPadding config_wrapping_row) (State_construct 0))"
    by (rule makeState_in_range [OF lt])
  have md: "mode config_wrapping_row 0 = \<lparr>m_width = 8192, m_height = 200, m_reserved0 = 0, m_reserved1 = 0\<rparr>"
    by (simp add: e cfg_defs)
  have rp: "rowPadding config_wrapping_row = 4294967280" by (simp add: e cfg_defs)
  have w: "m_width (m_modes config_wrapping_row ! 0) = 8192" by (simp add: e)
  have p: "m_rowPadding config_wrapping_row = 4294967280" by (simp add: e)
  show ?thesis
    by (simp add: lt ms md rp w p State_initialise_def State_width_def State_bytesPerRow_def
        State_pad_def State_bytesPerPixel_def Mode_width_def)
qed

theorem makeState_roundtrip_witness:
  "(0 :: u32) < modeCount (setRowPadding 32 (m_configuration (Framebuffer_start 0x2000000 2 3))) \<and>
   unat (32 :: u32) + 4 * unat (1280 :: u32) < 2 ^ 32 \<and>
   fst (makeState (setRowPadding 32 (m_configuration (Framebuffer_start 0x2000000 2 3))) (State_construct 0) 0 0) \<and>
   State_width (snd (makeState (setRowPadding 32 (m_configuration (Framebuffer_start 0x2000000 2 3))) (State_construct 0) 0 0)) = 1280 \<and>
   State_height (snd (makeState (setRowPadding 32 (m_configuration (Framebuffer_start 0x2000000 2 3))) (State_construct 0) 0 0)) = 800 \<and>
   State_pad (snd (makeState (setRowPadding 32 (m_configuration (Framebuffer_start 0x2000000 2 3))) (State_construct 0) 0 0)) = 32 \<and>
   State_bytesPerRow (snd (makeState (setRowPadding 32 (m_configuration (Framebuffer_start 0x2000000 2 3))) (State_construct 0) 0 0)) = 5152 \<and>
   unat (State_bytesPerRow (snd (makeState (setRowPadding 32 (m_configuration (Framebuffer_start 0x2000000 2 3))) (State_construct 0) 0 0))) = 5152"
proof -
  let ?c = "setRowPadding 32 (m_configuration (Framebuffer_start 0x2000000 2 3))"
  have v: "Configuration_isValid ?c"
    using start_config_valid [where v = "0x2000000" and w = 2 and t = 3]
    by (simp add: setRowPadding_def Configuration_isValid_def)
  have h: "(0 :: u32) < modeCount ?c"
    by (simp add: modeCount_def v) (simp add: setRowPadding_def start_configuration)
  have m: "m_modes ?c ! 0 = \<lparr>m_width = 1280, m_height = 800, m_reserved0 = 0, m_reserved1 = 0\<rparr>"
    by (simp add: setRowPadding_def start_configuration)
  have r: "m_rowPadding ?c = 32"
    by (simp add: setRowPadding_def)
  show ?thesis
    using h makeState_roundtrip [OF h, of "State_construct 0" 0]
    by (simp add: m r)
qed

text \<open>
  Claim C9, evaluated on the code. \<open>makeState\<close> assigns every field of the state except
  the stored mode index: from the same configuration, mode index and offset, a state
  that held mode index 0 before the call holds 0 after it, and one that held 7 holds 7.
\<close>

theorem makeState_keeps_old_modeIndex:
  "m_modeIndex (snd (makeState (m_configuration (Framebuffer_start 0x2000000 2 3)) (State_construct 0) 0 0)) = 0 \<and>
   m_modeIndex (snd (makeState (m_configuration (Framebuffer_start 0x2000000 2 3)) (State_construct 7) 0 0)) = 7"
  by (simp add: makeState_keeps_modeIndex State_construct_def State_invalidate_def)

section \<open>The timing emulator\<close>

lemma Timing_update_passed:
  fixes now :: u64
  assumes p0: "m_period t \<noteq> 0"
    and now: "unat now = unat (m_nextTick t) + k * unat (m_period t) + r"
    and r: "r < unat (m_period t)"
    and novf: "unat (m_nextTick t) + (k + 1) * unat (m_period t) < 2 ^ 64"
  shows "unat (fst (snd (Timing_update abs2ns now t))) = k + 1"
    and "m_period (fst (Timing_update abs2ns now t)) = m_period t"
    and "unat (m_nextTick (fst (Timing_update abs2ns now t))) = unat (m_nextTick t) + (k + 1) * unat (m_period t)"
    and "unat (m_nextTick (fst (Timing_update abs2ns now t)) - now) = unat (m_period t) - r"
    and "snd (snd (Timing_update abs2ns now t)) = ucast (abs2ns (m_nextTick (fst (Timing_update abs2ns now t)) - now) div 1000)"
proof -
  let ?n = "unat (m_nextTick t)" and ?p = "unat (m_period t)"
  have ppos: "0 < ?p" using p0 by (simp add: unat_gt_0)
  have le: "m_nextTick t \<le> now" using now by (simp add: word_le_nat_alt)
  have d: "unat (now - m_nextTick t) = k * ?p + r" using le now by (simp add: unat_sub)
  have q: "unat ((now - m_nextTick t) div m_period t) = k"
    using d r ppos by (simp add: unat_div)
  have k1: "k + 1 < 2 ^ 64"
  proof -
    have "(k + 1) * 1 \<le> (k + 1) * ?p"
      by (rule mult_le_mono2) (use ppos in simp)
    with novf show ?thesis by simp
  qed
  have tk: "unat ((now - m_nextTick t) div m_period t + 1) = k + 1"
    using q k1 unat_add_lem [of "(now - m_nextTick t) div m_period t" 1] by simp
  have m: "unat (m_period t * ((now - m_nextTick t) div m_period t + 1)) = ?p * (k + 1)"
  proof -
    have "?p * (k + 1) < 2 ^ 64" using novf by (simp add: mult.commute)
    then show ?thesis
      using unat_mult_lem [of "m_period t" "(now - m_nextTick t) div m_period t + 1"] tk by simp
  qed
  have nt: "unat (m_nextTick t + m_period t * ((now - m_nextTick t) div m_period t + 1)) = ?n + (k + 1) * ?p"
    using m novf unat_add_lem [of "m_nextTick t" "m_period t * ((now - m_nextTick t) div m_period t + 1)"]
    by (simp add: mult.commute)
  have upd: "Timing_update abs2ns now t =
      (t\<lparr>m_nextTick := m_nextTick t + m_period t * ((now - m_nextTick t) div m_period t + 1)\<rparr>,
       (now - m_nextTick t) div m_period t + 1,
       ucast (abs2ns (m_nextTick t + m_period t * ((now - m_nextTick t) div m_period t + 1) - now) div 1000))"
    using le p0 by (simp add: Timing_update_def Let_def)
  show "unat (fst (snd (Timing_update abs2ns now t))) = k + 1" by (simp add: upd tk)
  show "m_period (fst (Timing_update abs2ns now t)) = m_period t" by (simp add: upd)
  show nt': "unat (m_nextTick (fst (Timing_update abs2ns now t))) = ?n + (k + 1) * ?p" by (simp add: upd nt)
  have "now \<le> m_nextTick (fst (Timing_update abs2ns now t))"
    using nt' now r by (simp add: word_le_nat_alt)
  then have "unat (m_nextTick (fst (Timing_update abs2ns now t)) - now) = (?n + (k + 1) * ?p) - unat now"
    using nt' by (simp add: unat_sub)
  then show "unat (m_nextTick (fst (Timing_update abs2ns now t)) - now) = ?p - r"
    using now r by simp
  show "snd (snd (Timing_update abs2ns now t)) = ucast (abs2ns (m_nextTick (fst (Timing_update abs2ns now t)) - now) div 1000)"
    by (simp add: upd)
qed

lemma Timing_update_waiting:
  fixes now :: u64
  assumes "now < m_nextTick t" and "m_nextTick t - now \<le> m_period t"
  shows "Timing_update abs2ns now t = (t, 0, ucast (abs2ns (m_nextTick t - now) div 1000))"
proof -
  have a: "\<not> m_nextTick t \<le> now" using assms(1) by (simp add: not_le)
  have b: "\<not> m_period t < m_nextTick t - now" using assms(2) by (simp add: not_less)
  show ?thesis using a b by (simp add: Timing_update_def Let_def)
qed

lemma Timing_update_keeps_period:
  "m_period (fst (Timing_update abs2ns now t)) = m_period t"
  by (simp add: Timing_update_def Let_def)

lemma Timing_start_fields:
  "m_period (Timing_start ns2abs now period t) = ns2abs (ucast period * 1000)"
  "m_nextTick (Timing_start ns2abs now period t) = now + ns2abs (ucast period * 1000)"
  by (simp_all add: Timing_start_def Let_def)

lemma unat_period_ns:
  fixes P :: u32
  shows "unat ((ucast P :: u64) * 1000) = unat P * 1000"
proof -
  have P: "unat P < 2 ^ 32" using unsigned_less [of P] by simp
  then have "unat P < 2 ^ 64" by simp
  then have u: "unat (ucast P :: u64) = unat P"
    by (simp add: unsigned_ucast_eq take_bit_nat_eq_self)
  note P
  then have "unat (ucast P :: u64) * unat (1000 :: u64) < 2 ^ LENGTH(64)"
    by (simp add: u)
  then have "unat ((ucast P :: u64) * 1000) = unat (ucast P :: u64) * unat (1000 :: u64)"
    by (simp only: unat_mult_lem)
  then show ?thesis by (simp add: u)
qed

text \<open>
  Claim C4, as the code has it. The clock counts nanoseconds (both conversions are the
  identity, as on the machines the driver is built for) and does not wrap. After
  \<open>start(P)\<close> with \<open>P > 0\<close> at time \<open>t0\<close>, a first poll at \<open>t0 + N * P + r\<close> with
  \<open>0 \<le> r < P\<close> (times in nanoseconds, \<open>P\<close> taken as \<open>1000 * P\<close>) reports exactly
  \<open>N\<close> elapsed ticks, whatever \<open>N\<close> is, and moves the next tick to \<open>t0 + (N + 1) * P\<close>;
  for \<open>N = 0\<close> this is the poll before the next-tick time, which reports zero ticks and
  leaves the emulator as it was. The stored period is never changed by a poll. The reported microseconds to the next tick are the
  remaining \<open>P - r\<close> nanoseconds divided by 1000: a value in \<open>[0, P]\<close>, not \<open>[0, P)\<close>,
  and equal to \<open>P\<close> when \<open>r = 0\<close>.
\<close>

theorem update_after_whole_periods:
  fixes P :: u32 and t0 now :: u64
  assumes P: "0 < P"
    and r: "r < unat P * 1000"
    and novf: "unat t0 + (N + 1) * (unat P * 1000) < 2 ^ 64"
    and now: "unat now = unat t0 + N * (unat P * 1000) + r"
  shows "unat (fst (snd (Timing_update id now (Timing_start id t0 P t)))) = N \<and>
         unat (snd (snd (Timing_update id now (Timing_start id t0 P t)))) = (unat P * 1000 - r) div 1000 \<and>
         snd (snd (Timing_update id now (Timing_start id t0 P t))) \<le> P \<and>
         unat (m_nextTick (fst (Timing_update id now (Timing_start id t0 P t)))) =
           unat t0 + (N + 1) * (unat P * 1000) \<and>
         m_period (fst (Timing_update id now (Timing_start id t0 P t))) =
           m_period (Timing_start id t0 P t) \<and>
         m_period (Timing_start id t0 P t) = ucast P * 1000 \<and>
         (N = 0 \<longrightarrow> Timing_update id now (Timing_start id t0 P t) =
            (Timing_start id t0 P t, 0, snd (snd (Timing_update id now (Timing_start id t0 P t)))))"
proof -
  let ?T = "Timing_start id t0 P t" and ?p = "unat P * 1000"
  have per: "unat (m_period ?T) = ?p"
    by (simp add: Timing_start_fields unat_period_ns)
  have "?p \<le> (N + 1) * ?p" by simp
  with novf have "unat t0 + unat (m_period ?T) < 2 ^ LENGTH(64)"
    by (simp add: per)
  then have "unat (t0 + m_period ?T) = unat t0 + unat (m_period ?T)"
    by (simp only: unat_add_lem)
  then have nxt: "unat (m_nextTick ?T) = unat t0 + ?p"
    by (simp add: Timing_start_fields unat_period_ns)
  have Ppos: "0 < unat P" using P by (simp add: word_less_nat_alt)
  have p0: "m_period ?T \<noteq> 0"
    using per Ppos by (metis mult_is_0 neq0_conv unat_gt_0 zero_neq_numeral)
  have Pb: "unat P < 2 ^ 32" using unsigned_less [of P] by simp
  have rem: "unat (m_nextTick (fst (Timing_update id now ?T)) - now) = ?p - r \<and>
             snd (snd (Timing_update id now ?T)) = ucast ((m_nextTick (fst (Timing_update id now ?T)) - now) div 1000) \<and>
             unat (fst (snd (Timing_update id now ?T))) = N \<and>
             unat (m_nextTick (fst (Timing_update id now ?T))) = unat t0 + (N + 1) * ?p"
  proof (cases N)
    case 0
    have lt: "now < m_nextTick ?T"
      using now r nxt 0 by (simp add: word_less_nat_alt)
    then have sub: "unat (m_nextTick ?T - now) = ?p - r"
      using now nxt 0 by (simp add: unat_sub less_imp_le)
    then have "m_nextTick ?T - now \<le> m_period ?T"
      by (simp add: word_le_nat_alt per)
    with lt have "Timing_update id now ?T = (?T, 0, ucast (id (m_nextTick ?T - now) div 1000))"
      by (rule Timing_update_waiting)
    then show ?thesis using sub nxt 0 by simp
  next
    case (Suc k)
    have now': "unat now = unat (m_nextTick ?T) + k * unat (m_period ?T) + r"
      using now Suc by (simp add: nxt per)
    have r': "r < unat (m_period ?T)" using r by (simp add: per)
    have novf': "unat (m_nextTick ?T) + (k + 1) * unat (m_period ?T) < 2 ^ 64"
      using novf Suc by (simp add: nxt per)
    show ?thesis
      using Timing_update_passed [OF p0 now' r' novf', of id] Suc
      by (simp add: nxt per)
  qed
  let ?d = "m_nextTick (fst (Timing_update id now ?T)) - now"
  have dv: "unat (?d div 1000) = (?p - r) div 1000"
    using rem by (simp add: unat_div)
  have "(?p - r) div 1000 \<le> ?p div 1000" by (rule div_le_mono) simp
  then have small: "(?p - r) div 1000 \<le> unat P" by simp
  then have "unat (?d div 1000) < 2 ^ 32" using Pb dv by simp
  then have "unat (ucast (?d div 1000) :: u32) = unat (?d div 1000)"
    by (simp add: unsigned_ucast_eq take_bit_nat_eq_self)
  then have us: "unat (snd (snd (Timing_update id now ?T))) = (?p - r) div 1000"
    using rem dv by simp
  then have le: "snd (snd (Timing_update id now ?T)) \<le> P"
    using small by (simp add: word_le_nat_alt)
  have same: "N = 0 \<longrightarrow> Timing_update id now ?T = (?T, 0, snd (snd (Timing_update id now ?T)))"
  proof
    assume 0: "N = 0"
    have lt: "now < m_nextTick ?T"
      using now r nxt 0 by (simp add: word_less_nat_alt)
    then have "unat (m_nextTick ?T - now) = ?p - r"
      using now nxt 0 by (simp add: unat_sub less_imp_le)
    then have "m_nextTick ?T - now \<le> m_period ?T"
      by (simp add: word_le_nat_alt per)
    with lt have "Timing_update id now ?T = (?T, 0, ucast (id (m_nextTick ?T - now) div 1000))"
      by (rule Timing_update_waiting)
    then show "Timing_update id now ?T = (?T, 0, snd (snd (Timing_update id now ?T)))"
      by simp
  qed
  have pv: "m_period ?T = ucast P * 1000"
    by (simp add: Timing_start_fields)
  from us rem le same pv show ?thesis
    by (simp only: Timing_update_keeps_period simp_thms)
qed

theorem update_after_whole_periods_counterexample:
  "fst (snd (Timing_update id 2000000 (Timing_start id 0 1000 Timing_construct))) = 2 \<and>
   snd (snd (Timing_update id 2000000 (Timing_start id 0 1000 Timing_construct))) = 1000 \<and>
   \<not> snd (snd (Timing_update id 2000000 (Timing_start id 0 1000 Timing_construct))) < 1000"
  by (simp add: Timing_update_def Timing_start_def Timing_construct_def Let_def)

theorem update_after_whole_periods_witness:
  "(0 :: u32) < 1000 \<and> (500 :: nat) < unat (1000 :: u32) * 1000 \<and>
   unat (0 :: u64) + (2 + 1) * (unat (1000 :: u32) * 1000) < 2 ^ 64 \<and>
   unat (2000500 :: u64) = unat (0 :: u64) + 2 * (unat (1000 :: u32) * 1000) + 500 \<and>
   unat (fst (snd (Timing_update id 2000500 (Timing_start id 0 1000 Timing_construct)))) = 2 \<and>
   unat (snd (snd (Timing_update id 2000500 (Timing_start id 0 1000 Timing_construct)))) = 999 \<and>
   m_period (fst (Timing_update id 2000500 (Timing_start id 0 1000 Timing_construct))) = 1000000 \<and>
   (400000 :: nat) < unat (1000 :: u32) * 1000 \<and>
   unat (400000 :: u64) = unat (0 :: u64) + 0 * (unat (1000 :: u32) * 1000) + 400000 \<and>
   fst (Timing_update id 400000 (Timing_start id 0 1000 Timing_construct)) =
     Timing_start id 0 1000 Timing_construct \<and>
   fst (snd (Timing_update id 400000 (Timing_start id 0 1000 Timing_construct))) = 0 \<and>
   unat (snd (snd (Timing_update id 400000 (Timing_start id 0 1000 Timing_construct)))) = 600"
proof -
  have a: "(0 :: u32) < 1000" by simp
  have b: "(500 :: nat) < unat (1000 :: u32) * 1000" by simp
  have c: "unat (0 :: u64) + (2 + 1) * (unat (1000 :: u32) * 1000) < 2 ^ 64" by simp
  have d: "unat (2000500 :: u64) = unat (0 :: u64) + 2 * (unat (1000 :: u32) * 1000) + 500" by simp
  have b0: "(400000 :: nat) < unat (1000 :: u32) * 1000" by simp
  have c0: "unat (0 :: u64) + (0 + 1) * (unat (1000 :: u32) * 1000) < 2 ^ 64" by simp
  have d0: "unat (400000 :: u64) = unat (0 :: u64) + 0 * (unat (1000 :: u32) * 1000) + 400000" by simp
  have per: "m_period (Timing_start id 0 1000 Timing_construct) = 1000000"
    by (simp add: Timing_start_fields)
  note w2 = update_after_whole_periods [OF a b c d, of Timing_construct]
  note w0 = update_after_whole_periods [OF a b0 c0 d0, of Timing_construct]
  have z: "Timing_update id 400000 (Timing_start id 0 1000 Timing_construct) =
      (Timing_start id 0 1000 Timing_construct, 0,
       snd (snd (Timing_update id 400000 (Timing_start id 0 1000 Timing_construct))))"
    using w0 by blast
  have f: "fst (Timing_update id 400000 (Timing_start id 0 1000 Timing_construct)) =
      Timing_start id 0 1000 Timing_construct"
    by (subst z) simp
  have t: "fst (snd (Timing_update id 400000 (Timing_start id 0 1000 Timing_construct))) = 0"
    by (subst z) simp
  have u: "unat (snd (snd (Timing_update id 400000 (Timing_start id 0 1000 Timing_construct)))) = 600"
    using w0 by simp
  have p2: "m_period (fst (Timing_update id 2000500 (Timing_start id 0 1000 Timing_construct))) = 1000000"
    using w2 per by simp
  have t2: "unat (fst (snd (Timing_update id 2000500 (Timing_start id 0 1000 Timing_construct)))) = 2"
    using w2 by simp
  have u2: "unat (snd (snd (Timing_update id 2000500 (Timing_start id 0 1000 Timing_construct)))) = 999"
    using w2 by simp
  show ?thesis
    using a b c d b0 d0 f t u p2 t2 u2 by blast
qed

text \<open>
  Claim C5, as the code has it. If the stored period is zero and the next-tick time has
  passed, \<open>update()\<close> reports zero ticks and resets the next-tick time to the current
  time. If the current time is before the next-tick time by more than one period (the
  clock appears to have moved backward), it reports zero ticks and resets the next-tick
  time to one clock unit after the current time (\<open>now + 1\<close>), not one period after it.
  No error is raised in either case.
\<close>

theorem update_clamps_anomalies:
  "(m_period t = 0 \<and> m_nextTick t \<le> now \<longrightarrow>
      Timing_update abs2ns now t = (t\<lparr>m_nextTick := now\<rparr>, 0, ucast (abs2ns 0 div 1000))) \<and>
   (now < m_nextTick t \<and> m_period t < m_nextTick t - now \<longrightarrow>
      Timing_update abs2ns now t = (t\<lparr>m_nextTick := now + 1\<rparr>, 0, ucast (abs2ns 1 div 1000)))"
  by (auto simp: Timing_update_def Let_def not_le)

theorem update_clamps_anomalies_counterexample:
  "(0 :: u64) < m_nextTick \<lparr>m_period = 1000, m_nextTick = 5000\<rparr> \<and>
   m_period \<lparr>m_period = 1000, m_nextTick = 5000\<rparr> < m_nextTick \<lparr>m_period = 1000, m_nextTick = 5000\<rparr> - 0 \<and>
   m_nextTick (fst (Timing_update id 0 \<lparr>m_period = 1000, m_nextTick = 5000\<rparr>)) = 1 \<and>
   m_nextTick (fst (Timing_update id 0 \<lparr>m_period = 1000, m_nextTick = 5000\<rparr>))
     \<noteq> 0 + m_period \<lparr>m_period = 1000, m_nextTick = 5000\<rparr>"
  by (simp add: Timing_update_def Let_def)

theorem update_clamps_anomalies_witness:
  "Timing_update id 10 \<lparr>m_period = 0, m_nextTick = 5\<rparr> = (\<lparr>m_period = 0, m_nextTick = 10\<rparr>, 0, 0) \<and>
   Timing_update id 0 \<lparr>m_period = 1000, m_nextTick = 5000\<rparr> = (\<lparr>m_period = 1000, m_nextTick = 1\<rparr>, 0, 0)"
  using update_clamps_anomalies [of "\<lparr>m_period = 0, m_nextTick = 5\<rparr>" 10 id]
        update_clamps_anomalies [of "\<lparr>m_period = 1000, m_nextTick = 5000\<rparr>" 0 id]
  by simp

section \<open>The session pool\<close>

lemma slots_conv_set:
  "length xs = n \<Longrightarrow> (\<exists>i < n. xs ! i = (c :: nat)) \<longleftrightarrow> c \<in> set xs"
  by (auto simp: in_set_conv_nth)

lemma handleIsOpen_from_iff:
  "handleIsOpen_from i c d \<longleftrightarrow> (\<exists>j. i \<le> j \<and> j < kDisplayXFBMaxClients \<and> m_clients d ! j = c)"
proof (induction i c d rule: handleIsOpen_from.induct)
  case (1 i c d)
  show ?case
  proof (cases "i < kDisplayXFBMaxClients")
    case False
    then show ?thesis by (subst handleIsOpen_from.simps) auto
  next
    case True
    show ?thesis
    proof (cases "c = m_clients d ! i")
      case hit: True
      then show ?thesis using True by (subst handleIsOpen_from.simps) auto
    next
      case miss: False
      have "handleIsOpen_from i c d = handleIsOpen_from (i + 1) c d"
        using True miss by (subst handleIsOpen_from.simps) simp
      also have "\<dots> \<longleftrightarrow> (\<exists>j. i + 1 \<le> j \<and> j < kDisplayXFBMaxClients \<and> m_clients d ! j = c)"
        using "1.IH" True miss by simp
      also have "\<dots> \<longleftrightarrow> (\<exists>j. i \<le> j \<and> j < kDisplayXFBMaxClients \<and> m_clients d ! j = c)"
        using miss by (metis Suc_eq_plus1 Suc_leD Suc_leI le_neq_implies_less)
      finally show ?thesis .
    qed
  qed
qed

lemma handleIsOpen_iff:
  "handleIsOpen c d \<longleftrightarrow> (\<exists>j < kDisplayXFBMaxClients. m_clients d ! j = c)"
  by (simp add: handleIsOpen_def handleIsOpen_from_iff)

lemma handleOpen_from_full:
  "(\<forall>j. i \<le> j \<and> j < kDisplayXFBMaxClients \<longrightarrow> m_clients d ! j \<noteq> 0) \<Longrightarrow>
   handleOpen_from i c d = (False, d)"
proof (induction i c d rule: handleOpen_from.induct)
  case (1 i c d)
  show ?case
  proof (cases "i < kDisplayXFBMaxClients")
    case False
    then show ?thesis by (subst handleOpen_from.simps) simp
  next
    case True
    with "1.prems" have nz: "0 \<noteq> m_clients d ! i" by (metis le_refl)
    have "handleOpen_from i c d = handleOpen_from (i + 1) c d"
      using True nz by (subst handleOpen_from.simps) simp
    also have "\<dots> = (False, d)"
      using "1.IH" [OF True nz] "1.prems" by simp
    finally show ?thesis .
  qed
qed

lemma handleOpen_from_free:
  "\<exists>j. i \<le> j \<and> j < kDisplayXFBMaxClients \<and> m_clients d ! j = 0 \<Longrightarrow>
   \<exists>k. i \<le> k \<and> k < kDisplayXFBMaxClients \<and> m_clients d ! k = 0 \<and>
       handleOpen_from i c d = (True, d\<lparr>m_clients := (m_clients d)[k := c]\<rparr>)"
proof (induction i c d rule: handleOpen_from.induct)
  case (1 i c d)
  from "1.prems" obtain j where j: "i \<le> j" "j < kDisplayXFBMaxClients" "m_clients d ! j = 0"
    by blast
  then have lt: "i < kDisplayXFBMaxClients" by simp
  show ?case
  proof (cases "0 = m_clients d ! i")
    case True
    have "handleOpen_from i c d = (True, d\<lparr>m_clients := (m_clients d)[i := c]\<rparr>)"
      using lt True by (subst handleOpen_from.simps) simp
    with lt True show ?thesis by (metis le_refl)
  next
    case False
    with j have "i \<noteq> j" by auto
    with j have "\<exists>j. i + 1 \<le> j \<and> j < kDisplayXFBMaxClients \<and> m_clients d ! j = 0"
      by (metis Suc_eq_plus1 Suc_leI le_neq_implies_less)
    from "1.IH" [OF lt False this] obtain k where
      k: "i + 1 \<le> k" "k < kDisplayXFBMaxClients" "m_clients d ! k = 0"
         "handleOpen_from (i + 1) c d = (True, d\<lparr>m_clients := (m_clients d)[k := c]\<rparr>)"
      by blast
    have "handleOpen_from i c d = handleOpen_from (i + 1) c d"
      using lt False by (subst handleOpen_from.simps) simp
    with k show ?thesis by (metis Suc_eq_plus1 Suc_leD)
  qed
qed

text \<open>
  Claim C10. The pool has \<open>kDisplayXFBMaxClients\<close> = 8 slots. When every slot is
  occupied, \<open>handleOpen\<close> for a further client fails and returns the driver unchanged, so
  every open session stays registered as it was. When some slot is free and the (non-null)
  caller is not yet registered, \<open>handleOpen\<close> succeeds, the caller is registered
  afterwards, and every occupied slot keeps its occupant.
\<close>

theorem handleOpen_pool:
  assumes wf: "Driver_wf d" and nn: "forClient \<noteq> 0"
  shows "((\<forall>i < kDisplayXFBMaxClients. m_clients d ! i \<noteq> 0) \<longrightarrow>
            handleOpen forClient d = (False, d)) \<and>
         ((\<exists>i < kDisplayXFBMaxClients. m_clients d ! i = 0) \<and> \<not> handleIsOpen forClient d \<longrightarrow>
            fst (handleOpen forClient d) \<and>
            handleIsOpen forClient (snd (handleOpen forClient d)) \<and>
            Driver_wf (snd (handleOpen forClient d)) \<and>
            (\<forall>i < kDisplayXFBMaxClients. m_clients d ! i \<noteq> 0 \<longrightarrow>
               m_clients (snd (handleOpen forClient d)) ! i = m_clients d ! i))"
proof (intro conjI impI)
  assume full: "\<forall>i < kDisplayXFBMaxClients. m_clients d ! i \<noteq> 0"
  then have "handleOpen_from 0 forClient d = (False, d)"
    by (intro handleOpen_from_full) simp
  then show "handleOpen forClient d = (False, d)"
    by (simp add: handleOpen_def)
next
  assume a: "(\<exists>i < kDisplayXFBMaxClients. m_clients d ! i = 0) \<and> \<not> handleIsOpen forClient d"
  then have "\<exists>j. 0 \<le> j \<and> j < kDisplayXFBMaxClients \<and> m_clients d ! j = 0" by simp
  from handleOpen_from_free [OF this, of forClient] obtain k where
    k: "k < kDisplayXFBMaxClients" "m_clients d ! k = 0"
       "handleOpen_from 0 forClient d = (True, d\<lparr>m_clients := (m_clients d)[k := forClient]\<rparr>)"
    by blast
  have ho: "handleOpen forClient d = (True, d\<lparr>m_clients := (m_clients d)[k := forClient]\<rparr>)"
    using a nn k by (simp add: handleOpen_def)
  have len: "k < length (m_clients d)" using wf k by (simp add: Driver_wf_def)
  show "fst (handleOpen forClient d)" by (simp add: ho)
  show "handleIsOpen forClient (snd (handleOpen forClient d))"
    using k len by (auto simp: ho handleIsOpen_iff intro!: exI [of _ k])
  show "Driver_wf (snd (handleOpen forClient d))"
    using wf by (simp add: ho Driver_wf_def)
  show "\<forall>i < kDisplayXFBMaxClients. m_clients d ! i \<noteq> 0 \<longrightarrow>
          m_clients (snd (handleOpen forClient d)) ! i = m_clients d ! i"
    using k(1,2) wf by (auto simp: ho nth_list_update Driver_wf_def)
qed

theorem handleOpen_pool_witness:
  "handleOpen 9 \<lparr>m_clients = [1, 2, 3, 4, 5, 6, 7, 8]\<rparr> = (False, \<lparr>m_clients = [1, 2, 3, 4, 5, 6, 7, 8]\<rparr>) \<and>
   fst (handleOpen 9 \<lparr>m_clients = [1, 2, 0, 4, 0, 6, 7, 8]\<rparr>) \<and>
   handleIsOpen 9 (snd (handleOpen 9 \<lparr>m_clients = [1, 2, 0, 4, 0, 6, 7, 8]\<rparr>))"
proof -
  have w1: "Driver_wf \<lparr>m_clients = [1, 2, 3, 4, 5, 6, 7, 8]\<rparr>"
    by (simp add: Driver_wf_def kDisplayXFBMaxClients_def)
  have w2: "Driver_wf \<lparr>m_clients = [1, 2, 0, 4, 0, 6, 7, 8]\<rparr>"
    by (simp add: Driver_wf_def kDisplayXFBMaxClients_def)
  have n: "(9 :: nat) \<noteq> 0" by simp
  have full: "\<forall>i < kDisplayXFBMaxClients. m_clients \<lparr>m_clients = [1, 2, 3, 4, 5, 6, 7, 8]\<rparr> ! i \<noteq> 0"
    using slots_conv_set [of "[1, 2, 3, 4, 5, 6, 7, 8]" kDisplayXFBMaxClients 0]
    by (simp add: kDisplayXFBMaxClients_def)
  have free: "\<exists>i < kDisplayXFBMaxClients. m_clients \<lparr>m_clients = [1, 2, 0, 4, 0, 6, 7, 8]\<rparr> ! i = 0"
    by (rule exI [of _ 2]) (simp add: kDisplayXFBMaxClients_def)
  have notopen: "\<not> handleIsOpen 9 \<lparr>m_clients = [1, 2, 0, 4, 0, 6, 7, 8]\<rparr>"
    using slots_conv_set [of "[1, 2, 0, 4, 0, 6, 7, 8]" kDisplayXFBMaxClients 9]
    by (simp add: handleIsOpen_iff kDisplayXFBMaxClients_def)
  show ?thesis
    using handleOpen_pool [OF w1 n] handleOpen_pool [OF w2 n] full free notopen by simp
qed

section \<open>Connecting and configuring a display\<close>

text \<open>
  What \<open>connect()\<close> does in each of its three cases, and what an accepted configuration
  has passed: on a connected display \<open>NotPermitted\<close> with nothing changed, so also for a
  second \<open>connect()\<close> in a row; on a disconnected display without modes
  \<open>UnsupportedMode\<close>; otherwise success with the connected flag set, and, where the
  default mode index is below the mode count, a valid state carrying the default mode,
  the row padding and offset 0 (its stored mode index stays what it was). Every mode of
  an accepted configuration has passed the frame-size test in the source's 32-bit
  arithmetic, and a rejected configuration leaves the framebuffer unchanged.
\<close>

lemma connect_when_connected:
  "State_isConnected (m_state fb) \<Longrightarrow> userClientConnect ns2abs now fb = (kIOReturnNotPermitted, fb)"
  by (simp add: userClientConnect_def)

lemma connect_without_modes:
  "\<not> State_isConnected (m_state fb) \<Longrightarrow> modeCount (m_configuration fb) = 0 \<Longrightarrow>
   userClientConnect ns2abs now fb = (kIOReturnUnsupportedMode, fb)"
  by (simp add: userClientConnect_def)

lemma vblankEventEnable_keeps:
  "m_state (vblankEventEnable ns2abs now e fb) = m_state fb"
  "m_configuration (vblankEventEnable ns2abs now e fb) = m_configuration fb"
  by (simp_all add: vblankEventEnable_def Let_def)

lemma connect_with_modes:
  assumes "\<not> State_isConnected (m_state fb)" and "modeCount (m_configuration fb) \<noteq> 0"
  shows "fst (userClientConnect ns2abs now fb) = kIOReturnSuccess"
    and "m_configuration (snd (userClientConnect ns2abs now fb)) = m_configuration fb"
    and "m_state (snd (userClientConnect ns2abs now fb)) =
           State_setIsConnected True
             (snd (makeState (m_configuration fb) (m_state fb) (defaultModeIndex (m_configuration fb)) 0))"
    and "State_isConnected (m_state (snd (userClientConnect ns2abs now fb)))"
proof -
  have v: "Configuration_isValid (m_configuration fb)"
    using assms(2) by (auto simp: modeCount_def split: if_splits)
  show "fst (userClientConnect ns2abs now fb) = kIOReturnSuccess"
    using assms v by (simp add: userClientConnect_def Let_def)
  show "m_configuration (snd (userClientConnect ns2abs now fb)) = m_configuration fb"
    using assms v
    by (simp add: userClientConnect_def Let_def sendNotification_def fire_connectInterrupt_def
        vblankEventEnable_keeps)
  show s: "m_state (snd (userClientConnect ns2abs now fb)) =
           State_setIsConnected True
             (snd (makeState (m_configuration fb) (m_state fb) (defaultModeIndex (m_configuration fb)) 0))"
    using assms v
    by (simp add: userClientConnect_def Let_def sendNotification_def fire_connectInterrupt_def
        vblankEventEnable_keeps)
  show "State_isConnected (m_state (snd (userClientConnect ns2abs now fb)))"
    by (simp add: s setIsConnected_True)
qed

lemma connect_twice:
  assumes "\<not> State_isConnected (m_state fb)" and "modeCount (m_configuration fb) \<noteq> 0"
  shows "userClientConnect ns2abs' now' (snd (userClientConnect ns2abs now fb)) =
           (kIOReturnNotPermitted, snd (userClientConnect ns2abs now fb))"
  using connect_with_modes(4) [OF assms] by (rule connect_when_connected)

lemma connect_default_in_range:
  assumes "\<not> State_isConnected (m_state fb)"
    and "defaultModeIndex (m_configuration fb) < modeCount (m_configuration fb)"
  shows "State_isValid (m_state (snd (userClientConnect ns2abs now fb)))"
    and "m_mode (m_state (snd (userClientConnect ns2abs now fb))) = defaultMode (m_configuration fb)"
    and "m_pad (m_state (snd (userClientConnect ns2abs now fb))) = rowPadding (m_configuration fb)"
    and "m_offset (m_state (snd (userClientConnect ns2abs now fb))) = 0"
    and "m_modeIndex (m_state (snd (userClientConnect ns2abs now fb))) = m_modeIndex (m_state fb)"
proof -
  have nz: "modeCount (m_configuration fb) \<noteq> 0"
    using assms(2) by (metis word_coorder.extremum_strict)
  have lt: "defaultModeIndex (m_configuration fb) < kMaxModes"
    using assms(2) by (auto simp: modeCount_def Configuration_isValid_def split: if_splits)
  have m: "mode (m_configuration fb) (defaultModeIndex (m_configuration fb)) = defaultMode (m_configuration fb)"
    using lt by (simp add: mode_def defaultMode_def)
  note s = connect_with_modes(3) [OF assms(1) nz]
  show "State_isValid (m_state (snd (userClientConnect ns2abs now fb)))"
    by (simp add: s makeState_in_range [OF assms(2)] State_setIsConnected_def State_isValid_def State_initialise_def)
  show "m_mode (m_state (snd (userClientConnect ns2abs now fb))) = defaultMode (m_configuration fb)"
    by (simp add: s makeState_in_range [OF assms(2)] State_setIsConnected_def State_initialise_def m)
  show "m_pad (m_state (snd (userClientConnect ns2abs now fb))) = rowPadding (m_configuration fb)"
    by (simp add: s makeState_in_range [OF assms(2)] State_setIsConnected_def State_initialise_def)
  show "m_offset (m_state (snd (userClientConnect ns2abs now fb))) = 0"
    by (simp add: s makeState_in_range [OF assms(2)] State_setIsConnected_def State_initialise_def)
  show "m_modeIndex (m_state (snd (userClientConnect ns2abs now fb))) = m_modeIndex (m_state fb)"
    by (simp add: s makeState_in_range [OF assms(2)] State_setIsConnected_def State_initialise_def)
qed

lemma setConfiguration_accepted:
  assumes "Configuration_isValid c" and "modeCount c \<noteq> 0"
    and "\<not> State_isConnected (m_state fb)" and "checkModes c (m_vramSize fb) 0 = None"
  shows "userClientSetConfiguration (Some c) fb =
           (kIOReturnSuccess,
            fb\<lparr>m_configuration := c,
               m_state := State_setMode (defaultMode c) (defaultModeIndex c) (m_state fb)\<rparr>)"
  using assms by (simp add: userClientSetConfiguration_def Let_def eq_commute [of 0])

lemma setConfiguration_rejected_unchanged:
  "fst (userClientSetConfiguration cfg fb) \<noteq> kIOReturnSuccess \<Longrightarrow>
   snd (userClientSetConfiguration cfg fb) = fb"
  by (auto simp: userClientSetConfiguration_def Let_def split: option.splits if_splits)

lemma checkModes_single:
  assumes "modeCount c = 1"
    and "\<not> Mode_width (mode c 0) < kDisplayXFBMinWidth"
    and "\<not> Mode_height (mode c 0) < kDisplayXFBMinHeight"
    and "\<not> vram < State_bytesPerFrame (State_initialise (mode c 0) 0 (rowPadding c) (State_construct 0)) + kFramePadding"
  shows "checkModes c vram 0 = None"
proof -
  have one: "checkModes c vram 1 = None"
    using assms(1) by (subst checkModes.simps) simp
  have ms: "makeState c (State_construct 0) 0 0 =
      (True, State_initialise (mode c 0) 0 (rowPadding c) (State_construct 0))"
    using assms(1) by (simp add: makeState_in_range)
  show ?thesis
    using assms one by (subst checkModes.simps) (simp add: ms Let_def)
qed

lemma config_default_past_count_eq:
  "config_default_past_count =
     \<lparr>m_magic_cfg = 0x78464263, m_defaultModeIndex = 1, m_modeCount = 1,
      m_refreshRate = 0x003c0000, m_rowPadding = 0, m_framePadding = 1024,
      m_reserved0_cfg = 0, m_reserved1_cfg = 0,
      m_name = replicate 16 0,
      m_modes = (replicate 32 \<lparr>m_width = 1280, m_height = 900, m_reserved0 = 0, m_reserved1 = 0\<rparr>)
                   [0 := \<lparr>m_width = 640, m_height = 480, m_reserved0 = 0, m_reserved1 = 0\<rparr>,
                    1 := \<lparr>m_width = 1920, m_height = 1080, m_reserved0 = 0, m_reserved1 = 0\<rparr>]\<rparr>"
  by (simp add: config_default_past_count_def Let_def cfg_defs mode_defs word_le_nat_alt)

lemma config_wrapping_padding_eq:
  "config_wrapping_padding =
     \<lparr>m_magic_cfg = 0x78464263, m_defaultModeIndex = 0, m_modeCount = 1,
      m_refreshRate = 0x003c0000, m_rowPadding = 536869628, m_framePadding = 1024,
      m_reserved0_cfg = 0, m_reserved1_cfg = 0,
      m_name = replicate 16 0,
      m_modes = (replicate 32 \<lparr>m_width = 1280, m_height = 900, m_reserved0 = 0, m_reserved1 = 0\<rparr>)
                   [0 := \<lparr>m_width = 320, m_height = 200, m_reserved0 = 0, m_reserved1 = 0\<rparr>]\<rparr>"
  by (simp add: config_wrapping_padding_def Let_def cfg_defs mode_defs)


lemma config_default_past_count_valid:
  "Configuration_isValid config_default_past_count" "modeCount config_default_past_count = 1"
  "defaultModeIndex config_default_past_count = 1"
  "defaultMode config_default_past_count = \<lparr>m_width = 1920, m_height = 1080, m_reserved0 = 0, m_reserved1 = 0\<rparr>"
  "mode config_default_past_count 0 = \<lparr>m_width = 640, m_height = 480, m_reserved0 = 0, m_reserved1 = 0\<rparr>"
  "rowPadding config_default_past_count = 0"
  by (simp_all add: config_default_past_count_eq cfg_defs)

lemma config_wrapping_padding_valid:
  "Configuration_isValid config_wrapping_padding" "modeCount config_wrapping_padding = 1"
  "defaultModeIndex config_wrapping_padding = 0"
  "mode config_wrapping_padding 0 = \<lparr>m_width = 320, m_height = 200, m_reserved0 = 0, m_reserved1 = 0\<rparr>"
  "rowPadding config_wrapping_padding = 536869628"
  by (simp_all add: config_wrapping_padding_eq cfg_defs)

lemma start_vramSize: "m_vramSize (Framebuffer_start v w t) = v"
  by (simp add: Framebuffer_start_def Let_def)

lemma setConfiguration_default_past_count:
  "userClientSetConfiguration (Some config_default_past_count) (Framebuffer_start 0x2000000 2 3) =
     (kIOReturnSuccess,
      (Framebuffer_start 0x2000000 2 3)
        \<lparr>m_configuration := config_default_past_count,
         m_state := State_setMode (defaultMode config_default_past_count)
                      (defaultModeIndex config_default_past_count)
                      (m_state (Framebuffer_start 0x2000000 2 3))\<rparr>)"
proof (rule setConfiguration_accepted)
  show "Configuration_isValid config_default_past_count"
    by (rule config_default_past_count_valid)
  show "modeCount config_default_past_count \<noteq> 0"
    by (simp add: config_default_past_count_valid)
  show "\<not> State_isConnected (m_state (Framebuffer_start 0x2000000 2 3))"
    by (rule start_not_connected)
  show "checkModes config_default_past_count (m_vramSize (Framebuffer_start 0x2000000 2 3)) 0 = None"
    by (rule checkModes_single)
       (simp_all add: config_default_past_count_valid start_vramSize mode_defs state_defs kFramePadding_def)
qed

lemma checkModes_step:
  assumes "checkModes c vram i = None" and "i < modeCount c"
  shows "\<not> vram < State_bytesPerFrame (snd (makeState c (State_construct 0) i 0)) + kFramePadding"
    and "checkModes c vram (i + 1) = None"
proof -
  have u: "checkModes c vram i =
     (let m = mode c i in
         if Mode_width m < kDisplayXFBMinWidth \<or> Mode_height m < kDisplayXFBMinHeight
         then Some kIOReturnBadArgument
         else
           (let (ok, state) = makeState c (State_construct 0) i 0 in
            if \<not> ok then Some kIOReturnBadArgument
            else if (State_bytesPerFrame state + kFramePadding) > vram then Some kIOReturnNoMemory
            else checkModes c vram (i + 1)))"
    using assms(2) by (subst checkModes.simps) simp
  show "\<not> vram < State_bytesPerFrame (snd (makeState c (State_construct 0) i 0)) + kFramePadding"
    using assms(1) unfolding u by (auto simp: Let_def split: if_splits prod.splits)
  show "checkModes c vram (i + 1) = None"
    using assms(1) unfolding u by (auto simp: Let_def split: if_splits prod.splits)
qed

lemma checkModes_None_checked:
  "checkModes c vram i = None \<Longrightarrow> i \<le> j \<Longrightarrow> j < modeCount c \<Longrightarrow>
     \<not> vram < State_bytesPerFrame (snd (makeState c (State_construct 0) j 0)) + kFramePadding"
proof (induction "unat j - unat i" arbitrary: i)
  case 0
  then have "i = j" by (simp add: word_le_nat_alt word_unat_eq_iff)
  with 0 show ?case using checkModes_step(1) by blast
next
  case (Suc n)
  then have lt: "i < j" by (simp add: word_less_nat_alt)
  with Suc.prems have ilt: "i < modeCount c" by simp
  have "unat i < unat j" using lt by (simp add: word_less_nat_alt)
  moreover have "unat j < 2 ^ LENGTH(32)" by (rule unsigned_less)
  ultimately have "unat i + unat (1 :: u32) < 2 ^ LENGTH(32)" by simp
  then have "unat (i + 1) = unat i + unat (1 :: u32)" by (simp only: unat_add_lem)
  then have s: "unat (i + 1) = unat i + 1" by simp
  have le: "i + 1 \<le> j" using s \<open>unat i < unat j\<close> by (simp add: word_le_nat_alt)
  have n: "n = unat j - unat (i + 1)" using Suc.hyps(2) s by simp
  show ?case
    using Suc.hyps(1) [OF n checkModes_step(2) [OF Suc.prems(1) ilt] le Suc.prems(3)] .
qed

lemma checkModes_not_Success: "checkModes c vram i \<noteq> Some kIOReturnSuccess"
proof (induction c vram i rule: checkModes.induct)
  case (1 config vram i)
  show ?case
    by (subst checkModes.simps) (use 1 in \<open>auto simp: Let_def split: prod.splits\<close>)
qed

lemma setConfiguration_success_checked:
  assumes "fst (userClientSetConfiguration (Some c) fb) = kIOReturnSuccess" and "j < modeCount c"
  shows "State_bytesPerFrame (snd (makeState c (State_construct 0) j 0)) + kFramePadding \<le> m_vramSize fb"
proof -
  have cm: "checkModes c (m_vramSize fb) 0 = None"
    using assms(1) checkModes_not_Success [of c "m_vramSize fb" 0]
    by (auto simp: userClientSetConfiguration_def Let_def split: if_splits option.splits)
  have "\<not> m_vramSize fb < State_bytesPerFrame (snd (makeState c (State_construct 0) j 0)) + kFramePadding"
    by (rule checkModes_None_checked [OF cm _ assms(2)]) simp
  then show ?thesis by simp
qed

text \<open>
  Claim C2, evaluated on the code. The started framebuffer accepts
  \<open>config_default_past_count\<close>, whose default mode is 1920 x 1080 at index 1 while its mode
  count is 1. The display is disconnected and has a mode, so the claim's third case
  applies; \<open>connect()\<close> returns success, but \<open>makeState\<close> finds the default index out of
  range and invalidates the state, and its result is not tested: the state is left with
  the inverted magic number, the built-in 1280 x 900 mode and the connected flag set, not
  recomputed from the configuration's default mode, and \<open>getState\<close> answers \<open>Offline\<close>.
\<close>

theorem connect_with_default_past_count:
  "fst (userClientSetConfiguration (Some config_default_past_count) (Framebuffer_start 0x2000000 2 3))
     = kIOReturnSuccess \<and>
   defaultMode config_default_past_count
     = \<lparr>m_width = 1920, m_height = 1080, m_reserved0 = 0, m_reserved1 = 0\<rparr> \<and>
   fst (userClientConnect id 0
          (snd (userClientSetConfiguration (Some config_default_past_count) (Framebuffer_start 0x2000000 2 3))))
     = kIOReturnSuccess \<and>
   m_state (snd (userClientConnect id 0
          (snd (userClientSetConfiguration (Some config_default_past_count) (Framebuffer_start 0x2000000 2 3)))))
     = \<lparr>m_magic = NOT State_kMagic, m_offset = 0, m_pad = 0, m_flags = 1, m_modeIndex = 1,
        m_reserved = replicate 3 0,
        m_mode = \<lparr>m_width = 1280, m_height = 900, m_reserved0 = 0, m_reserved1 = 0\<rparr>\<rparr> \<and>
   fst (userClientGetState (snd (userClientConnect id 0
          (snd (userClientSetConfiguration (Some config_default_past_count) (Framebuffer_start 0x2000000 2 3))))))
     = kIOReturnOffline"
proof -
  let ?fb1 = "(Framebuffer_start 0x2000000 2 3)
        \<lparr>m_configuration := config_default_past_count,
         m_state := State_setMode (defaultMode config_default_past_count)
                      (defaultModeIndex config_default_past_count)
                      (m_state (Framebuffer_start 0x2000000 2 3))\<rparr>"
  have nc: "\<not> State_isConnected (m_state ?fb1)"
    by (simp add: start_state State_setMode_def State_isConnected_def)
  have nz: "modeCount (m_configuration ?fb1) \<noteq> 0"
    by (simp add: config_default_past_count_valid)
  have s1: "m_state ?fb1 =
      \<lparr>m_magic = 0x78464266, m_offset = 0, m_pad = 0, m_flags = 0, m_modeIndex = 1,
        m_reserved = replicate 3 0,
        m_mode = \<lparr>m_width = 1920, m_height = 1080, m_reserved0 = 0, m_reserved1 = 0\<rparr>\<rparr>"
    by (simp add: start_state State_setMode_def config_default_past_count_valid)
  have "m_state (snd (userClientConnect id 0 ?fb1)) =
      State_setIsConnected True
        (snd (makeState (m_configuration ?fb1) (m_state ?fb1) (defaultModeIndex (m_configuration ?fb1)) 0))"
    by (rule connect_with_modes(3) [OF nc nz])
  also have "\<dots> =
      \<lparr>m_magic = NOT State_kMagic, m_offset = 0, m_pad = 0, m_flags = 1, m_modeIndex = 1,
        m_reserved = replicate 3 0,
        m_mode = \<lparr>m_width = 1280, m_height = 900, m_reserved0 = 0, m_reserved1 = 0\<rparr>\<rparr>"
    unfolding s1
    by (simp add: makeState_def Let_def config_default_past_count_valid
        State_invalidate_def State_setIsConnected_def State_kFlagConnected_def mode_defs)
  finally have st: "m_state (snd (userClientConnect id 0 ?fb1)) =
      \<lparr>m_magic = NOT State_kMagic, m_offset = 0, m_pad = 0, m_flags = 1, m_modeIndex = 1,
        m_reserved = replicate 3 0,
        m_mode = \<lparr>m_width = 1280, m_height = 900, m_reserved0 = 0, m_reserved1 = 0\<rparr>\<rparr>" .
  have gs: "fst (userClientGetState (snd (userClientConnect id 0 ?fb1))) = kIOReturnOffline"
    by (simp add: userClientGetState_def st State_isValid_def State_kMagic_def)
  show ?thesis
    using connect_with_modes(1) [OF nc nz, of id 0] st gs
    by (simp add: setConfiguration_default_past_count config_default_past_count_valid)
qed

theorem connect_with_default_past_count_witness:
  "\<not> State_isValid (m_state (snd (userClientConnect id 0
          (snd (userClientSetConfiguration (Some config_default_past_count) (Framebuffer_start 0x2000000 2 3))))))"
  using connect_with_default_past_count
  by (simp add: State_isValid_def State_kMagic_def)

text \<open>
  Claim C7, evaluated on the code. For \<open>config_wrapping_padding\<close> the computed bytes per
  frame are 4294966496; adding the frame padding of 1024 wraps around to 224 in the
  source's 32-bit sum, which is below the 33554432 bytes of VRAM. \<open>setConfiguration\<close>
  returns success and stores the configuration, although bytes per frame plus padding
  exceed the VRAM size.
\<close>

theorem setConfiguration_accepts_wrapped_frame_size:
  "modeCount config_wrapping_padding = 1 \<and>
   State_bytesPerFrame (snd (makeState config_wrapping_padding (State_construct 0) 0 0)) = 4294966496 \<and>
   m_vramSize (Framebuffer_start 0x2000000 2 3) = 33554432 \<and>
   \<not> unat (State_bytesPerFrame (snd (makeState config_wrapping_padding (State_construct 0) 0 0)))
        + unat kFramePadding \<le> unat (m_vramSize (Framebuffer_start 0x2000000 2 3)) \<and>
   fst (userClientSetConfiguration (Some config_wrapping_padding) (Framebuffer_start 0x2000000 2 3))
     = kIOReturnSuccess \<and>
   m_configuration (snd (userClientSetConfiguration (Some config_wrapping_padding) (Framebuffer_start 0x2000000 2 3)))
     = config_wrapping_padding"
proof -
  have bpf: "State_bytesPerFrame (snd (makeState config_wrapping_padding (State_construct 0) 0 0)) = 4294966496"
    by (simp add: makeState_in_range config_wrapping_padding_valid state_defs mode_defs)
  have cm: "checkModes config_wrapping_padding (m_vramSize (Framebuffer_start 0x2000000 2 3)) 0 = None"
    by (rule checkModes_single)
       (simp_all add: config_wrapping_padding_valid start_vramSize mode_defs state_defs kFramePadding_def)
  have acc: "userClientSetConfiguration (Some config_wrapping_padding) (Framebuffer_start 0x2000000 2 3) =
     (kIOReturnSuccess,
      (Framebuffer_start 0x2000000 2 3)
        \<lparr>m_configuration := config_wrapping_padding,
         m_state := State_setMode (defaultMode config_wrapping_padding)
                      (defaultModeIndex config_wrapping_padding)
                      (m_state (Framebuffer_start 0x2000000 2 3))\<rparr>)"
    by (rule setConfiguration_accepted)
       (simp_all add: config_wrapping_padding_valid start_not_connected cm)
  show ?thesis
    by (simp add: bpf acc start_vramSize kFramePadding_def config_wrapping_padding_valid)
qed

end
